theory Spec2Isabelle
  imports Complex_Main
begin

section \<open>The installation process of Thus (installation/process.py)\<close>

text \<open>
  A shallow embedding of \<^verbatim>\<open>src/thus/installation/process.py\<close>. Methods of
  \<^verbatim>\<open>InstallationProcess\<close> become functions on a record of the object's attributes.
  A method either returns, raises a Python exception, or ends the process
  (\<^verbatim>\<open>os._exit\<close>); the three are the constructors of \<open>res\<close>. Everything the code
  asks of the operating system (a command run by \<^verbatim>\<open>subprocess.check_call\<close>, a path test,
  a file operation) is recorded in the attribute-like field \<open>trace\<close>, and its outcome is
  read from a \<open>world\<close>, a set of functions of the trace so far, so that the same command
  can succeed at one time and fail at another.

  Conventions: \<^verbatim>\<open>_()\<close> (gettext) is the identity; strings are ASCII; a float ratio is
  kept as the exact rational it rounds.
\<close>

subsection \<open>Exceptions, events, external actions\<close>

datatype py_exception =
    CalledProcessError "string list"
  | InstallError string
  | NameError string
  | KeyError string
  | AttributeError string
  | ZeroDivisionError
  | ValueError
  | IndexError
  | TypeError
  | OSError string

datatype payload = Text string | Ratio rat | Exc py_exception

type_synonym event = "string \<times> payload"

text \<open>What the process does to its environment, in the order it does it.\<close>

datatype action =
    CheckCall "string list"
  | Popen "string list"
  | Makedirs string
  | Mkdir string
  | Remove string
  | Chmod string nat
  | AppendFile string string
  | WriteFile string string
  | CopyFile string string
  | QueueJoin
  | SettingsSet string payload
  | UnmountAll string
  | AutoPartitionRun

text \<open>The outcome of running a command: exit status zero, a non-zero exit status
  (\<^verbatim>\<open>CalledProcessError\<close>), or the command could not be started (\<^verbatim>\<open>OSError\<close>).\<close>

datatype cmd_result = Done | NonZero | SpawnError

datatype 'a res = Normal 'a | Raise py_exception | Exit

subsection \<open>The object's attributes\<close>

datatype pyval = PNone | PBool bool | PStr string

record state =
  settings :: "string \<rightharpoonup> pyval"
  install_method :: pyval
  callback_queue :: "event list option"
  stdout :: "event list"
  log :: "event list"
  trace :: "action list"
  ssd :: "string list"
  mount_devices :: "(string \<times> string) list"
  fs_devices :: "string \<rightharpoonup> string"
  running :: bool
  error :: bool
  special_dirs_mounted :: bool
  dest_dir :: string
  media :: string
  media_desktop :: string
  media_type :: string
  kernel :: string

type_synonym 'a prog = "state \<Rightarrow> 'a res \<times> state"

subsection \<open>Sequencing, exceptions, loops\<close>

definition ret :: "'a \<Rightarrow> 'a prog" where
  "ret x = (\<lambda>s. (Normal x, s))"

definition raise :: "py_exception \<Rightarrow> 'a prog" where
  "raise e = (\<lambda>s. (Raise e, s))"

definition bind :: "'a prog \<Rightarrow> ('a \<Rightarrow> 'b prog) \<Rightarrow> 'b prog" where
  "bind m f = (\<lambda>s. case m s of
       (Normal x, s') \<Rightarrow> f x s'
     | (Raise e, s') \<Rightarrow> (Raise e, s')
     | (Exit, s') \<Rightarrow> (Exit, s'))"

definition seq :: "unit prog \<Rightarrow> 'a prog \<Rightarrow> 'a prog" where
  "seq m n = bind m (\<lambda>_. n)"

text \<open>A block of statements, run in order.\<close>

fun block :: "unit prog list \<Rightarrow> unit prog" where
  "block [] = ret ()"
| "block (m # ms) = seq m (block ms)"

text \<open>\<^verbatim>\<open>try: m except ...: h\<close>. The handler \<open>h e\<close> is \<open>None\<close> when no clause matches \<open>e\<close>;
  an exception raised inside a handler is not caught by the clauses of the same
  \<^verbatim>\<open>try\<close>.\<close>

definition try_except :: "'a prog \<Rightarrow> (py_exception \<Rightarrow> 'a prog option) \<Rightarrow> 'a prog" where
  "try_except m h = (\<lambda>s. case m s of
       (Raise e, s') \<Rightarrow> (case h e of Some k \<Rightarrow> k s' | None \<Rightarrow> (Raise e, s'))
     | r \<Rightarrow> r)"

text \<open>\<^verbatim>\<open>for x in xs: body\<close>; a \<^verbatim>\<open>continue\<close> is the body returning.\<close>

fun for_each :: "'a list \<Rightarrow> ('a \<Rightarrow> unit prog) \<Rightarrow> unit prog" where
  "for_each [] body = ret ()"
| "for_each (x # xs) body = seq (body x) (for_each xs body)"

definition modify :: "(state \<Rightarrow> state) \<Rightarrow> unit prog" where
  "modify f = (\<lambda>s. (Normal (), f s))"

definition when_do :: "bool \<Rightarrow> unit prog \<Rightarrow> unit prog" where
  "when_do b m = (if b then m else ret ())"

text \<open>A statement that reads the attributes of \<^verbatim>\<open>self\<close> as they are when it starts.\<close>

definition with_state :: "(state \<Rightarrow> 'a prog) \<Rightarrow> 'a prog" where
  "with_state g = (\<lambda>s. g s s)"

subsection \<open>Strings\<close>

text \<open>\<^verbatim>\<open>a in b\<close> on strings.\<close>

fun is_prefix :: "string \<Rightarrow> string \<Rightarrow> bool" where
  "is_prefix [] ys = True"
| "is_prefix (x # xs) [] = False"
| "is_prefix (x # xs) (y # ys) = (x = y \<and> is_prefix xs ys)"

fun str_in :: "string \<Rightarrow> string \<Rightarrow> bool" where
  "str_in a [] = (a = [])"
| "str_in a (c # cs) = (is_prefix a (c # cs) \<or> str_in a cs)"

text \<open>\<^verbatim>\<open>os.path.join(a, b)\<close> of posixpath, for two components: an absolute \<open>b\<close>
  discards \<open>a\<close>.\<close>

definition os_path_join :: "string \<Rightarrow> string \<Rightarrow> string" where
  "os_path_join a b =
     (if is_prefix ''/'' b then b
      else if a = [] \<or> last a = CHR ''/'' then a @ b
      else a @ ''/'' @ b)"

definition DEST_DIR :: string where
  "DEST_DIR = ''/install''"

subsection \<open>The world\<close>

text \<open>The outcome of \<^verbatim>\<open>shutil.copy\<close>: done, \<^verbatim>\<open>FileNotFoundError\<close>,
  \<^verbatim>\<open>FileExistsError\<close>, or another \<^verbatim>\<open>OSError\<close>.\<close>

datatype copy_result = Copied | NotFound | AlreadyExists | CopyDenied

record world =
  run_result :: "action list \<Rightarrow> string list \<Rightarrow> cmd_result"
  path_exists :: "action list \<Rightarrow> string \<Rightarrow> bool"
  os_ok :: "action list \<Rightarrow> action \<Rightarrow> bool"
  get_info :: "string \<Rightarrow> (string \<rightharpoonup> string)"
  mount_info :: "action list \<Rightarrow> string \<Rightarrow> bool"
  proc_mounts :: "action list \<Rightarrow> string list list"
  wc_output :: "action list \<Rightarrow> string \<Rightarrow> nat option"
  rsync_lines :: "action list \<Rightarrow> string \<Rightarrow> string list"
  configuration :: "string \<rightharpoonup> (string \<rightharpoonup> string)"
  auto_partition :: "action list \<Rightarrow> py_exception + ((string \<times> string) list \<times> (string \<rightharpoonup> string))"
  copy_outcome :: "action list \<Rightarrow> copy_result"
  strftime :: "action list \<Rightarrow> string"

definition record_action :: "action \<Rightarrow> unit prog" where
  "record_action a = modify (\<lambda>s. s\<lparr>trace := trace s @ [a]\<rparr>)"

text \<open>\<^verbatim>\<open>subprocess.check_call(cmd)\<close>.\<close>

definition check_call :: "world \<Rightarrow> string list \<Rightarrow> unit prog" where
  "check_call W cmd = (\<lambda>s.
     let s' = s\<lparr>trace := trace s @ [CheckCall cmd]\<rparr> in
     case run_result W (trace s) cmd of
       Done \<Rightarrow> (Normal (), s')
     | NonZero \<Rightarrow> (Raise (CalledProcessError cmd), s')
     | SpawnError \<Rightarrow> (Raise (OSError (concat cmd)), s'))"

text \<open>A file-system call that either succeeds or raises \<^verbatim>\<open>OSError\<close>.\<close>

definition os_call :: "world \<Rightarrow> action \<Rightarrow> string \<Rightarrow> unit prog" where
  "os_call W a p = (\<lambda>s.
     if os_ok W (trace s) a then (Normal (), s\<lparr>trace := trace s @ [a]\<rparr>)
     else (Raise (OSError p), s))"

definition logging :: "string \<Rightarrow> payload \<Rightarrow> unit prog" where
  "logging level msg = modify (\<lambda>s. s\<lparr>log := log s @ [(level, msg)]\<rparr>)"

subsection \<open>The event channel\<close>

text \<open>\<^verbatim>\<open>queue_event\<close>: with a queue, the event is handed to \<^verbatim>\<open>put_nowait\<close>
  (\<^verbatim>\<open>queue.Full\<close> is swallowed, so the producer goes on the same way whether the consumer
  had room or not: the list holds every event handed over); without one it is printed.\<close>

definition queue_event :: "string \<Rightarrow> payload \<Rightarrow> unit prog" where
  "queue_event event_type event_text = (\<lambda>s.
     case callback_queue s of
       Some q \<Rightarrow> (Normal (), s\<lparr>callback_queue := Some (q @ [(event_type, event_text)])\<rparr>)
     | None \<Rightarrow> (Normal (), s\<lparr>stdout := stdout s @ [(event_type, event_text)]\<rparr>))"

text \<open>\<^verbatim>\<open>queue_fatal_event\<close>: sets the flags, queues the error, joins the queue (an
  \<^verbatim>\<open>AttributeError\<close> on \<^verbatim>\<open>None\<close>) and ends the process.\<close>

definition queue_fatal_event :: "payload \<Rightarrow> 'a prog" where
  "queue_fatal_event txt = (\<lambda>s.
     let s1 = s\<lparr>error := True, running := False\<rparr> in
     case queue_event ''error'' txt s1 of
       (_, s2) \<Rightarrow>
         (case callback_queue s2 of
            None \<Rightarrow> (Raise (AttributeError ''join''), s2)
          | Some _ \<Rightarrow> (Exit, s2\<lparr>trace := trace s2 @ [QueueJoin]\<rparr>)))"

subsection \<open>The settings store and the constructor\<close>

text \<open>Modelled from the spec: the settings store (the config module is not under src/) has
  get/set semantics; \<^verbatim>\<open>get\<close> of a key that was never set is \<^verbatim>\<open>None\<close>.\<close>

definition settings_get :: "state \<Rightarrow> string \<Rightarrow> pyval" where
  "settings_get s k = (case settings s k of None \<Rightarrow> PNone | Some v \<Rightarrow> v)"

definition settings_set :: "string \<Rightarrow> pyval \<Rightarrow> unit prog" where
  "settings_set k v = modify (\<lambda>s. s\<lparr>settings := (settings s)(k \<mapsto> v)\<rparr>)"

text \<open>Python's truth value and \<^verbatim>\<open>str()\<close> of a setting.\<close>

fun truthy :: "pyval \<Rightarrow> bool" where
  "truthy PNone = False"
| "truthy (PBool b) = b"
| "truthy (PStr v) = (v \<noteq> [])"

fun py_str :: "pyval \<Rightarrow> string" where
  "py_str PNone = ''None''"
| "py_str (PBool b) = (if b then ''True'' else ''False'')"
| "py_str (PStr v) = v"

text \<open>\<^verbatim>\<open>InstallationProcess.__init__\<close>: the attributes the methods below read.\<close>

definition init :: "(string \<rightharpoonup> pyval) \<Rightarrow> event list option \<Rightarrow> (string \<times> string) list \<Rightarrow>
    (string \<rightharpoonup> string) \<Rightarrow> string list option \<Rightarrow> state" where
  "init settings0 queue0 mount_devices0 fs_devices0 ssd0 =
     (let m = (case settings0 ''partition_mode'' of None \<Rightarrow> PNone | Some v \<Rightarrow> v);
          s = \<lparr> settings = settings0, install_method = m, callback_queue = queue0, stdout = [],
                log = [], trace = [],
                ssd = (case ssd0 of Some d \<Rightarrow> d | None \<Rightarrow> []),
                mount_devices = mount_devices0, fs_devices = fs_devices0,
                running = True, error = False, special_dirs_mounted = False,
                dest_dir = [], media = [], media_desktop = [], media_type = [],
                kernel = [] \<rparr>
      in snd (queue_event ''info''
                (Text (''Installing using the '' @ [CHR 0x27] @ py_str m @ [CHR 0x27] @ '' method'')) s))"

text \<open>The events of one kind handed to the channel.\<close>

definition events :: "state \<Rightarrow> event list" where
  "events s = (case callback_queue s of Some q \<Rightarrow> q | None \<Rightarrow> [])"

definition events_of_kind :: "string \<Rightarrow> state \<Rightarrow> payload list" where
  "events_of_kind k s = map snd (filter (\<lambda>e. fst e = k) (events s))"

subsection \<open>The copy progress tracker (FileCopyThread)\<close>

text \<open>The regular expression \<^verbatim>\<open>xfr#(\d+), ir-chk=(\d+)/(\d+)\<close>. A greedy \<^verbatim>\<open>\d+\<close>
  followed by a character that is not a digit has one way to match, so the match at a
  position is a function; \<^verbatim>\<open>re.findall(...)[0]\<close> is the leftmost one.\<close>

definition is_digit :: "char \<Rightarrow> bool" where
  "is_digit c = (c \<in> set ''0123456789'')"

definition digit_val :: "char \<Rightarrow> nat" where
  "digit_val c = of_char c - of_char CHR ''0''"

text \<open>\<^verbatim>\<open>int(ds)\<close> on a string of digits.\<close>

definition int_of_digits :: "string \<Rightarrow> int" where
  "int_of_digits ds = int (foldl (\<lambda>n c. 10 * n + digit_val c) 0 ds)"

fun strip_prefix :: "string \<Rightarrow> string \<Rightarrow> string option" where
  "strip_prefix [] ys = Some ys"
| "strip_prefix (x # xs) [] = None"
| "strip_prefix (x # xs) (y # ys) = (if x = y then strip_prefix xs ys else None)"

definition match_digits :: "string \<Rightarrow> (string \<times> string) option" where
  "match_digits s =
     (let ds = takeWhile is_digit s in
      if ds = [] then None else Some (ds, dropWhile is_digit s))"

definition match_here :: "string \<Rightarrow> (string \<times> string \<times> string) option" where
  "match_here s =
     (case strip_prefix ''xfr#'' s of None \<Rightarrow> None | Some r1 \<Rightarrow>
     (case match_digits r1 of None \<Rightarrow> None | Some (g1, r2) \<Rightarrow>
     (case strip_prefix '', ir-chk='' r2 of None \<Rightarrow> None | Some r3 \<Rightarrow>
     (case match_digits r3 of None \<Rightarrow> None | Some (g2, r4) \<Rightarrow>
     (case strip_prefix ''/'' r4 of None \<Rightarrow> None | Some r5 \<Rightarrow>
     (case match_digits r5 of None \<Rightarrow> None | Some (g3, r6) \<Rightarrow> Some (g1, g2, g3)))))))"

text \<open>The first element of \<^verbatim>\<open>re.findall\<close>, \<open>None\<close> when the list is empty.\<close>

fun findall_first :: "string \<Rightarrow> (string \<times> string \<times> string) option" where
  "findall_first [] = None"
| "findall_first (c # cs) =
     (case match_here (c # cs) of Some g \<Rightarrow> Some g | None \<Rightarrow> findall_first cs)"

record file_copy_thread =
  our_current :: int
  total_files :: int
  offset :: int

text \<open>\<^verbatim>\<open>update_progress\<close>: \<^verbatim>\<open>float(num_files) / float(self.total_files)\<close> raises on a
  zero total.\<close>

definition update_progress :: "file_copy_thread \<Rightarrow> int \<Rightarrow> unit prog" where
  "update_progress t num_files =
     (if total_files t = 0 then raise ZeroDivisionError
      else queue_event ''percent'' (Ratio (of_int num_files / of_int (total_files t))))"

text \<open>The body of the loop of \<^verbatim>\<open>run\<close> for one line: the new value of
  \<^verbatim>\<open>num_files_copied\<close>.\<close>

definition run_line :: "file_copy_thread \<Rightarrow> int \<Rightarrow> string \<Rightarrow> int prog" where
  "run_line t num_files_copied line =
     (case findall_first line of
        None \<Rightarrow> ret num_files_copied
      | Some (xfr, remaining, total_local) \<Rightarrow>
          (let num_files_remaining = int_of_digits remaining;
               num_files_total_local = int_of_digits total_local;
               copied = num_files_total_local - num_files_remaining + offset t
           in if copied mod 100 = 0
              then seq (update_progress t copied) (ret copied)
              else ret copied))"

fun run_lines :: "file_copy_thread \<Rightarrow> int \<Rightarrow> string list \<Rightarrow> int prog" where
  "run_lines t n [] = ret n"
| "run_lines t n (line # lines) = bind (run_line t n line) (\<lambda>n'. run_lines t n' lines)"

text \<open>\<^verbatim>\<open>FileCopyThread.run\<close> over the lines the copy tool prints: the thread object
  with its final offset.\<close>

definition FileCopyThread_run :: "file_copy_thread \<Rightarrow> string list \<Rightarrow> file_copy_thread prog" where
  "FileCopyThread_run t lines =
     bind (run_lines t 0 lines) (\<lambda>n. ret (t\<lparr>offset := n\<rparr>))"

text \<open>The events one line stands for, in the words of the specification: a line carrying
  a (remaining, total) pair emits \<open>copied / total_files\<close> exactly when \<open>copied\<close> is a
  multiple of 100; any other line emits nothing.\<close>

definition spec_line_events :: "file_copy_thread \<Rightarrow> string \<Rightarrow> event list" where
  "spec_line_events t line =
     (case findall_first line of
        None \<Rightarrow> []
      | Some (xfr, remaining, total_local) \<Rightarrow>
          (let copied = int_of_digits total_local - int_of_digits remaining + offset t
           in if 100 dvd copied
              then [(''percent'', Ratio (of_int copied / of_int (total_files t)))]
              else []))"

subsection \<open>The chroot lifecycle\<close>

text \<open>\<^verbatim>\<open>repr\<close> of a list of strings, as \<^verbatim>\<open>"%s" % err.cmd\<close> prints it.\<close>

fun py_repr_items :: "string list \<Rightarrow> string" where
  "py_repr_items [] = []"
| "py_repr_items [x] = [CHR 0x27] @ x @ [CHR 0x27]"
| "py_repr_items (x # y # ys) = [CHR 0x27] @ x @ [CHR 0x27] @ '', '' @ py_repr_items (y # ys)"

definition py_repr_list :: "string list \<Rightarrow> string" where
  "py_repr_list xs = ''['' @ py_repr_items xs @ '']''"

text \<open>\<^verbatim>\<open>if not os.path.exists(p): os.makedirs(p)\<close>.\<close>

definition makedirs_if_missing :: "world \<Rightarrow> string \<Rightarrow> unit prog" where
  "makedirs_if_missing W p = (\<lambda>s.
     if path_exists W (trace s) p then (Normal (), s) else os_call W (Makedirs p) p s)"

definition chroot_mount_special_dirs :: "world \<Rightarrow> unit prog" where
  "chroot_mount_special_dirs W = (\<lambda>s.
     if special_dirs_mounted s
     then queue_event ''debug'' (Text ''Special dirs already mounted.'') s
     else
       (let special_dirs = [''sys'', ''proc'', ''dev'', ''dev/pts'', ''sys/firmware/efi''];
            d = dest_dir s
        in block [
          for_each special_dirs (\<lambda>s_dir. makedirs_if_missing W (os_path_join d s_dir)),
          check_call W [''mount'', ''-t'', ''sysfs'', ''/sys'', os_path_join d ''sys''],
          check_call W [''chmod'', ''555'', os_path_join d ''sys''],
          check_call W [''mount'', ''-t'', ''proc'', ''/proc'', os_path_join d ''proc''],
          check_call W [''chmod'', ''555'', os_path_join d ''proc''],
          check_call W [''mount'', ''-o'', ''bind'', ''/dev'', os_path_join d ''dev''],
          check_call W [''mount'', ''-t'', ''devpts'', ''/dev/pts'', os_path_join d ''dev/pts''],
          check_call W [''chmod'', ''555'', os_path_join d ''dev/pts''],
          when_do (truthy (settings_get s ''efi''))
            (check_call W [''mount'', ''-o'', ''bind'', ''/sys/firmware/efi'',
                           os_path_join d ''sys/firmware/efi'']),
          modify (\<lambda>s. s\<lparr>special_dirs_mounted := True\<rparr>)
        ]) s)"

text \<open>The body of the loop of \<^verbatim>\<open>chroot_umount_special_dirs\<close> for one directory.\<close>

definition umount_special_dir :: "world \<Rightarrow> string \<Rightarrow> unit prog" where
  "umount_special_dir W mydir =
     try_except (check_call W [''umount'', mydir])
       (\<lambda>err. case err of
          CalledProcessError c \<Rightarrow> Some (block [
            logging ''error'' (Exc err),
            try_except (check_call W [''umount'', ''-l'', mydir])
              (\<lambda>err2. case err2 of
                 CalledProcessError c2 \<Rightarrow> Some (block [
                   queue_event ''warning'' (Text (''Unable to umount '' @ mydir)),
                   logging ''warning'' (Text (''Command '' @ py_repr_list c2 @ '' has failed.'')),
                   logging ''warning'' (Text ''Output : None'')])
               | _ \<Rightarrow> None)])
        | _ \<Rightarrow> Some (block [
            queue_event ''warning'' (Text (''Unable to umount '' @ mydir)),
            logging ''error'' (Exc err)]))"

definition chroot_umount_special_dirs :: "world \<Rightarrow> unit prog" where
  "chroot_umount_special_dirs W = (\<lambda>s.
     if \<not> special_dirs_mounted s
     then queue_event ''debug'' (Text ''Special dirs are not mounted. Skipping.'') s
     else
       (let special_dirs =
              (if truthy (settings_get s ''efi'')
               then [''dev/pts'', ''sys/firmware/efi'', ''sys'', ''proc'', ''dev'']
               else [''dev/pts'', ''sys'', ''proc'', ''dev''])
        in block [
          for_each special_dirs (\<lambda>s_dir. umount_special_dir W (os_path_join (dest_dir s) s_dir)),
          modify (\<lambda>s. s\<lparr>special_dirs_mounted := False\<rparr>)
        ]) s)"

text \<open>Reading a trace: the directories mounted (the last argument of each \<^verbatim>\<open>mount\<close>
  command) and the directories a plain \<^verbatim>\<open>umount\<close> was tried on, in order.\<close>

fun mounted_dirs :: "action list \<Rightarrow> string list" where
  "mounted_dirs [] = []"
| "mounted_dirs (CheckCall (c # args) # as) =
     (if c = ''mount'' \<and> args \<noteq> [] then last args # mounted_dirs as else mounted_dirs as)"
| "mounted_dirs (a # as) = mounted_dirs as"

fun unmounted_dirs :: "action list \<Rightarrow> string list" where
  "unmounted_dirs [] = []"
| "unmounted_dirs (CheckCall [c, d] # as) =
     (if c = ''umount'' then d # unmounted_dirs as else unmounted_dirs as)"
| "unmounted_dirs (a # as) = unmounted_dirs as"

text \<open>A world in which every command succeeds, every path exists and every file
  operation goes through.\<close>

definition calm_world :: world where
  "calm_world = \<lparr> run_result = (\<lambda>h c. Done), path_exists = (\<lambda>h p. True),
     os_ok = (\<lambda>h a. True), get_info = (\<lambda>p. [''UUID'' \<mapsto> ''u'' @ p]),
     mount_info = (\<lambda>h p. True), proc_mounts = (\<lambda>h. []),
     wc_output = (\<lambda>h m. Some 100), rsync_lines = (\<lambda>h src. []),
     configuration =
       [''distribution'' \<mapsto> [''DISTRIBUTION_NAME'' \<mapsto> ''Manjaro'',
                              ''DISTRIBUTION_VERSION'' \<mapsto> ''0.8''],
        ''install'' \<mapsto> [''LIVE_USER_NAME'' \<mapsto> ''manjaro'',
                         ''LIVE_MEDIA_SOURCE'' \<mapsto> ''/bootmnt/root-image.sqfs'',
                         ''LIVE_MEDIA_DESKTOP'' \<mapsto> ''/bootmnt/desktop-image.sqfs'',
                         ''LIVE_MEDIA_TYPE'' \<mapsto> ''squashfs'',
                         ''KERNEL'' \<mapsto> ''linux318'']],
     auto_partition = (\<lambda>h. Inr ([(''/'', ''/dev/sda1'')], [''/dev/sda1'' \<mapsto> ''ext4''])),
     copy_outcome = (\<lambda>h. Copied), strftime = (\<lambda>h. ''20150101-120000'') \<rparr>"

text \<open>Unmounting a list of directories, in the words of the specification: each directory
  is unmounted with the plain form; an unmount that fails is retried with the lazy form;
  one that fails again is downgraded to a warning. The result is the commands run and the
  warnings queued.\<close>

fun spec_unmount :: "world \<Rightarrow> action list \<Rightarrow> string list \<Rightarrow> action list \<times> event list" where
  "spec_unmount W h [] = ([], [])"
| "spec_unmount W h (d # ds) =
     (let plain = CheckCall [''umount'', d];
          lazy = CheckCall [''umount'', ''-l'', d];
          (cmds, warns) =
            (if run_result W h [''umount'', d] = Done then ([plain], [])
             else if run_result W (h @ [plain]) [''umount'', ''-l'', d] = Done
             then ([plain, lazy], [])
             else ([plain, lazy], [(''warning'', Text (''Unable to umount '' @ d))]));
          (cmds', warns') = spec_unmount W (h @ cmds) ds
      in (cmds @ cmds', warns @ warns'))"

text \<open>A world in which \<^verbatim>\<open>dev/pts\<close> cannot be unmounted at all and \<^verbatim>\<open>sys\<close> only lazily.\<close>

definition sticky_world :: world where
  "sticky_world = calm_world\<lparr> run_result := (\<lambda>h c.
     if c = [''umount'', ''dev/pts''] \<or> c = [''umount'', ''-l'', ''dev/pts'']
        \<or> c = [''umount'', ''sys'']
     then NonZero else Done) \<rparr>"

subsection \<open>The fstab builder (auto_fstab)\<close>

definition fstab_header :: "string list" where
  "fstab_header =
     [''# /etc/fstab: static file system information.'',
      ''#'',
      ''# Use '' @ [CHR 0x27] @ ''blkid'' @ [CHR 0x27] @ '' to print the universally unique identifier for a'',
      ''# device; this may be used with UUID= as a more robust way to name devices'',
      ''# that works even if disks are added and removed. See fstab(5).'',
      ''#'',
      ''# <file system> <mount point>   <type>  <options>       <dump>  <pass>'',
      ''#'']"

definition tmpfs_line :: string where
  "tmpfs_line = ''tmpfs /tmp tmpfs defaults,noatime,mode=1777 0 0''"

text \<open>\<^verbatim>\<open>sep.join(xs)\<close>.\<close>

fun py_join :: "string \<Rightarrow> string list \<Rightarrow> string" where
  "py_join sep [] = []"
| "py_join sep [x] = x"
| "py_join sep (x # y # ys) = x @ sep @ py_join sep (y # ys)"

text \<open>The loop \<^verbatim>\<open>for ssd_device in self.ssd: if ssd_device in partition_path: is_ssd = True\<close>.\<close>

definition is_ssd_path :: "string list \<Rightarrow> string \<Rightarrow> bool" where
  "is_ssd_path ssd_devices partition_path =
     foldl (\<lambda>is_ssd ssd_device. if str_in ssd_device partition_path then True else is_ssd)
       False ssd_devices"

text \<open>The mount options of an entry that is neither swap nor a crypt mapping.\<close>

definition mount_opts :: "bool \<Rightarrow> string \<Rightarrow> string" where
  "mount_opts is_ssd myfmt =
     (if \<not> is_ssd then
        (if str_in ''btrfs'' myfmt
         then ''defaults,rw,relatime,space_cache,autodefrag,inode_cache''
         else if str_in ''f2fs'' myfmt then ''defaults,rw,noatime''
         else if str_in ''ext3'' myfmt \<or> str_in ''ext4'' myfmt
         then ''defaults,rw,relatime,data=ordered''
         else ''defaults,rw,relatime'')
      else
        (if myfmt = ''ext4'' \<or> myfmt = ''jfs'' \<or> myfmt = ''xfs''
         then ''defaults,rw,noatime,discard''
         else if myfmt = ''btrfs''
         then ''defaults,rw,noatime,compress=lzo,ssd,discard,space_cache,autodefrag,inode_cache''
         else ''defaults,rw,noatime''))"

definition crypttab_path :: string where
  "crypttab_path = os_path_join DEST_DIR ''etc/crypttab''"

text \<open>Lines 785-795: a swap partition.\<close>

definition fstab_swap :: "string \<Rightarrow> string \<Rightarrow> string list \<Rightarrow> string list prog" where
  "fstab_swap uuid partition_path all_lines = with_state (\<lambda>s.
     let opts = (if partition_path \<in> set (ssd s) then ''defaults,discard'' else ''defaults'');
         txt = ''UUID='' @ uuid @ '' swap swap '' @ opts @ '' 0 0''
     in seq (logging ''debug'' (Text (''Added to fstab : '' @ txt))) (ret (all_lines @ [txt])))"

text \<open>Lines 799-821: home on LUKS without LVM, automatic install.\<close>

definition fstab_home_luks :: "world \<Rightarrow> string \<Rightarrow> string \<Rightarrow> string \<Rightarrow> string list \<Rightarrow>
    string list prog" where
  "fstab_home_luks W uuid mount_point myfmt all_lines = with_state (\<lambda>s.
     let luks_root_password = settings_get s ''luks_root_password'' in
     bind (case luks_root_password of
             PBool True \<Rightarrow> raise TypeError
           | v \<Rightarrow> ret (if truthy v then ''none'' else ''/etc/luks-keys/home''))
       (\<lambda>home_keyfile.
          let line = ''cryptAntergosHome /dev/disk/by-uuid/'' @ uuid @ '' '' @ home_keyfile
                     @ '' luks'' @ [CHR 0x0A];
              txt = ''/dev/mapper/cryptAntergosHome '' @ mount_point @ '' '' @ myfmt
                    @ '' defaults 0 0''
          in seq (block [
               os_call W (Chmod crypttab_path 438) crypttab_path,
               os_call W (AppendFile crypttab_path line) crypttab_path,
               logging ''debug'' (Text (''Added to crypttab : '' @ line)),
               os_call W (Chmod crypttab_path 384) crypttab_path,
               logging ''debug'' (Text (''Added to fstab : '' @ txt))])
             (ret (all_lines @ [txt]))))"

text \<open>Lines 823-836: a LUKS partition of the advanced install, root apart.\<close>

definition fstab_advanced_luks :: "world \<Rightarrow> string \<Rightarrow> string \<Rightarrow> string \<Rightarrow> string \<Rightarrow>
    string list \<Rightarrow> string list prog" where
  "fstab_advanced_luks W uuid mount_point partition_path myfmt all_lines =
     (let vol_name = drop (length ''/dev/mapper/'') partition_path;
          line = vol_name @ '' /dev/disk/by-uuid/'' @ uuid @ '' none luks'' @ [CHR 0x0A];
          txt = partition_path @ '' '' @ mount_point @ '' '' @ myfmt @ '' defaults 0 0''
      in seq (block [
           os_call W (Chmod crypttab_path 438) crypttab_path,
           os_call W (AppendFile crypttab_path line) crypttab_path,
           logging ''debug'' (Text (''Added to crypttab : '' @ line)),
           os_call W (Chmod crypttab_path 384) crypttab_path,
           logging ''debug'' (Text (''Added to fstab : '' @ txt))])
         (ret (all_lines @ [txt])))"

text \<open>Lines 838-892: every other partition.\<close>

definition fstab_plain :: "world \<Rightarrow> string \<Rightarrow> string \<Rightarrow> string \<Rightarrow> string \<Rightarrow>
    string list \<Rightarrow> string list prog" where
  "fstab_plain W uuid mount_point partition_path myfmt0 all_lines =
     (let myfmt = (if str_in ''fat'' myfmt0 then ''vfat'' else myfmt0) in
      seq (when_do (str_in ''btrfs'' myfmt) (settings_set ''btrfs'' (PBool True)))
        (if mount_point = [] then ret all_lines
         else seq (makedirs_if_missing W (os_path_join DEST_DIR mount_point))
           (with_state (\<lambda>s.
              let is_ssd = is_ssd_path (ssd s) partition_path;
                  opts = mount_opts is_ssd myfmt;
                  chk = (if mount_point = ''/'' \<and> myfmt \<notin> set [''btrfs'', ''f2fs'']
                         then ''1'' else ''0'');
                  txt = ''UUID='' @ uuid @ '' '' @ mount_point @ '' '' @ myfmt @ '' '' @ opts
                        @ '' 0 '' @ chk
              in seq (block [
                   when_do (mount_point = ''/'') (settings_set ''ruuid'' (PStr uuid)),
                   logging ''debug'' (Text (''Added to fstab : '' @ txt))])
                 (ret (all_lines @ [txt]))))))"

text \<open>The body of the loop over \<^verbatim>\<open>self.mount_devices\<close>, for the entry
  \<open>(mount_point, partition_path)\<close>: the new value of \<^verbatim>\<open>all_lines\<close>. The UUID is read
  (\<^verbatim>\<open>part_info['UUID']\<close>, a \<^verbatim>\<open>KeyError\<close> when the partition has none) before the
  file system is looked up. \<^verbatim>\<open>mount_point is not "/"\<close> is read as inequality.\<close>

definition auto_fstab_entry :: "world \<Rightarrow> pyval \<Rightarrow> pyval \<Rightarrow> string \<times> string \<Rightarrow> string list \<Rightarrow>
    string list prog" where
  "auto_fstab_entry W use_luks use_lvm entry all_lines = with_state (\<lambda>s.
     let mount_point = fst entry; partition_path = snd entry in
     case get_info W partition_path ''UUID'' of
       None \<Rightarrow> raise (KeyError ''UUID'')
     | Some uuid \<Rightarrow>
        (case fs_devices s partition_path of
           None \<Rightarrow> ret all_lines
         | Some myfmt \<Rightarrow>
            if str_in ''swap'' myfmt then fstab_swap uuid partition_path all_lines
            else if str_in ''/home'' mount_point \<and> install_method s = PStr ''automatic''
                    \<and> truthy use_luks \<and> \<not> truthy use_lvm
            then fstab_home_luks W uuid mount_point myfmt all_lines
            else if install_method s = PStr ''advanced'' \<and> mount_point \<noteq> ''/''
                    \<and> truthy use_luks \<and> str_in ''/dev/mapper'' partition_path
            then fstab_advanced_luks W uuid mount_point partition_path myfmt all_lines
            else fstab_plain W uuid mount_point partition_path myfmt all_lines))"

fun fstab_loop :: "world \<Rightarrow> pyval \<Rightarrow> pyval \<Rightarrow> (string \<times> string) list \<Rightarrow> string list \<Rightarrow>
    string list prog" where
  "fstab_loop W use_luks use_lvm [] all_lines = ret all_lines"
| "fstab_loop W use_luks use_lvm (entry # entries) all_lines =
     bind (auto_fstab_entry W use_luks use_lvm entry all_lines)
       (\<lambda>all_lines'. fstab_loop W use_luks use_lvm entries all_lines')"

text \<open>\<^verbatim>\<open>auto_fstab\<close> up to the tmpfs line: the final value of \<^verbatim>\<open>all_lines\<close>.\<close>

definition auto_fstab_lines :: "world \<Rightarrow> string list prog" where
  "auto_fstab_lines W = with_state (\<lambda>s.
     let use_luks = settings_get s ''use_luks'';
         use_lvm = settings_get s ''use_lvm''
     in bind (fstab_loop W use_luks use_lvm (mount_devices s) fstab_header)
          (\<lambda>all_lines.
             seq (logging ''debug'' (Text (''Added to fstab : '' @ tmpfs_line)))
               (ret (all_lines @ [tmpfs_line]))))"

definition fstab_path :: string where
  "fstab_path = os_path_join DEST_DIR ''etc/fstab''"

definition auto_fstab :: "world \<Rightarrow> unit prog" where
  "auto_fstab W =
     bind (auto_fstab_lines W) (\<lambda>all_lines.
       let full_text = py_join [CHR 0x0A] all_lines @ [CHR 0x0A] in
       block [
         os_call W (WriteFile fstab_path full_text) fstab_path,
         logging ''debug'' (Text ''fstab written.'')])"

subsection \<open>What a statement leaves alone\<close>

text \<open>\<open>preserves f m\<close>: running \<open>m\<close> does not change the reading \<open>f\<close> of the state,
  however \<open>m\<close> ends.\<close>

definition preserves :: "(state \<Rightarrow> 'b) \<Rightarrow> 'a prog \<Rightarrow> bool" where
  "preserves f m = (\<forall>s r s'. m s = (r, s') \<longrightarrow> f s' = f s)"

text \<open>The installers of the scenarios below.\<close>

definition scenario_state :: state where
  "scenario_state = init Map.empty (Some [])
     [(''/'', ''/dev/sda2''), (''/boot'', ''/dev/sda1''), (''swap'', ''/dev/sda3'')]
     [''/dev/sda2'' \<mapsto> ''ext4'', ''/dev/sda1'' \<mapsto> ''ext4'', ''/dev/sda3'' \<mapsto> ''swap'']
     None"

definition ssd_state :: state where
  "ssd_state = init Map.empty (Some [])
     [(''/'', ''/dev/sda2''), (''/boot'', ''/dev/sda1''), (''swap'', ''/dev/sda3'')]
     [''/dev/sda2'' \<mapsto> ''ext4'', ''/dev/sda1'' \<mapsto> ''ext4'', ''/dev/sda3'' \<mapsto> ''swap'']
     (Some [''/dev/sda''])"

definition luks_home_state :: state where
  "luks_home_state = init [''partition_mode'' \<mapsto> PStr ''automatic'', ''use_luks'' \<mapsto> PBool True]
     (Some []) [(''/home'', ''/dev/sda4'')] [''/dev/sda4'' \<mapsto> ''ext4''] (Some [''/dev/sda''])"

definition unformatted_state :: state where
  "unformatted_state = init Map.empty (Some [])
     [(''/'', ''/dev/sda2''), (''/data'', ''/dev/sdb1'')] [''/dev/sda2'' \<mapsto> ''ext4''] None"

subsection \<open>The extraction stage (install_system)\<close>

text \<open>\<^verbatim>\<open>str.split()\<close>: the words between runs of white space.\<close>

fun split_ws :: "string \<Rightarrow> string \<Rightarrow> string list" where
  "split_ws cur [] = (if cur = [] then [] else [cur])"
| "split_ws cur (c # cs) =
     (if c \<in> set [CHR '' '', CHR 0x09, CHR 0x0A, CHR 0x0D]
      then (if cur = [] then split_ws [] cs else cur # split_ws [] cs)
      else split_ws (cur @ [c]) cs)"

definition py_split :: "string \<Rightarrow> string list" where
  "py_split s = split_ws [] s"

text \<open>\<^verbatim>\<open>"%d" % n\<close> for a natural number.\<close>

fun string_of_nat :: "nat \<Rightarrow> string" where
  "string_of_nat n =
     (if n < 10 then [char_of (of_char CHR ''0'' + n)]
      else string_of_nat (n div 10) @ [char_of (of_char CHR ''0'' + n mod 10)])"

text \<open>\<^verbatim>\<open>if not os.path.exists(p): os.mkdir(p)\<close>.\<close>

definition mkdir_if_missing :: "world \<Rightarrow> string \<Rightarrow> unit prog" where
  "mkdir_if_missing W p = with_state (\<lambda>s.
     if path_exists W (trace s) p then ret () else os_call W (Mkdir p) p)"

text \<open>\<^verbatim>\<open>check_source_folder\<close>: the device of the last line of \<^verbatim>\<open>/proc/mounts\<close> whose
  second field is the mount point; a line with fewer than two fields raises
  \<^verbatim>\<open>IndexError\<close>.\<close>

fun scan_mounts :: "string \<Rightarrow> string list list \<Rightarrow> string option \<Rightarrow> string option prog" where
  "scan_mounts mount_point [] device = ret device"
| "scan_mounts mount_point (line # lines) device =
     (case line of
        dev # mp # rest \<Rightarrow>
          scan_mounts mount_point lines (if mp = mount_point then Some dev else device)
      | _ \<Rightarrow> raise IndexError)"

definition check_source_folder :: "world \<Rightarrow> string \<Rightarrow> string option prog" where
  "check_source_folder W mount_point = with_state (\<lambda>s.
     scan_mounts mount_point (proc_mounts W (trace s)) None)"

text \<open>Mounting one image of the installation media, unless something is mounted there.\<close>

definition mount_media :: "world \<Rightarrow> string \<Rightarrow> string \<Rightarrow> unit prog" where
  "mount_media W img mount_point =
     bind (check_source_folder W mount_point) (\<lambda>device. with_state (\<lambda>s.
       case device of
         None \<Rightarrow> check_call W [''mount'', img, mount_point, ''-t'', media_type s, ''-o'', ''loop'']
       | Some d \<Rightarrow> logging ''warning''
           (Text (img @ '' is already mounted at '' @ mount_point @ '' as '' @ d))))"

text \<open>\<^verbatim>\<open>unsquashfs -l image | wc -l\<close>: the output, \<open>None\<close> when it is not a number.\<close>

definition index_files :: "world \<Rightarrow> string \<Rightarrow> nat option prog" where
  "index_files W img =
     seq (os_call W (Popen [''unsquashfs'', ''-l'', img]) ''unsquashfs'')
    (seq (os_call W (Popen [''wc'', ''-l'']) ''wc'')
         (with_state (\<lambda>s. ret (wc_output W (trace s) img))))"

text \<open>\<^verbatim>\<open>t.start(); t.join()\<close>: an exception in the thread ends the thread, not the
  installer, and leaves the offset of the thread object as it was.\<close>

definition start_join :: "file_copy_thread \<Rightarrow> string list \<Rightarrow> file_copy_thread prog" where
  "start_join t lines = (\<lambda>s.
     case FileCopyThread_run t lines s of
       (Raise e, s') \<Rightarrow> (Normal t, s')
     | r \<Rightarrow> r)"

text \<open>One copy job: the constructor starts \<^verbatim>\<open>rsync\<close>, the thread reads its output.\<close>

definition copy_job :: "world \<Rightarrow> int \<Rightarrow> int \<Rightarrow> string \<Rightarrow> string \<Rightarrow> int \<Rightarrow> file_copy_thread prog" where
  "copy_job W current n_total source dest off =
     seq (os_call W (Popen (py_split (''rsync -ar --progress '' @ source @ '' '' @ dest))) ''rsync'')
       (with_state (\<lambda>s.
          start_join \<lparr>our_current = current, total_files = n_total, offset = off\<rparr>
            (rsync_lines W (trace s) source)))"

definition media_missing_txt :: string where
  "media_missing_txt = ''Base filesystem does not exist! Critical error (exiting).''"

definition desktop_missing_txt :: string where
  "desktop_missing_txt = ''Desktop filesystem does not exist! Critical error (exiting).''"

text \<open>The \<^verbatim>\<open>try\<close> block of \<^verbatim>\<open>install_system\<close>.\<close>

definition install_system_body :: "world \<Rightarrow> unit prog" where
  "install_system_body W = with_state (\<lambda>s.
     seq (block [
       mkdir_if_missing W (dest_dir s),
       mkdir_if_missing W ''/source'',
       mkdir_if_missing W ''/source_desktop'',
       with_state (\<lambda>s1. when_do (\<not> path_exists W (trace s1) (media s))
         (seq (logging ''error'' (Text media_missing_txt))
              (queue_fatal_event (Text media_missing_txt)))),
       with_state (\<lambda>s1. when_do (\<not> path_exists W (trace s1) (media_desktop s))
         (seq (logging ''error'' (Text desktop_missing_txt))
              (queue_fatal_event (Text desktop_missing_txt)))),
       mount_media W (media s) ''/source'',
       mount_media W (media_desktop s) ''/source_desktop'',
       queue_event ''info'' (Text ''Indexing files to be copied...'')])
    (bind (index_files W (media s)) (\<lambda>output1.
     seq (queue_event ''info'' (Text ''Indexing files to be copied ...''))
    (bind (index_files W (media_desktop s)) (\<lambda>output2.
     case (output1, output2) of
       (Some n1, Some n2) \<Rightarrow>
         (let our_total = int (n1 + n2) in
          seq (queue_event ''info'' (Text ''Extracting root-image ...''))
         (bind (copy_job W 0 our_total ''/source/'' (dest_dir s) 0) (\<lambda>t.
          seq (queue_event ''info'' (Text ''Extracting desktop-image ...''))
         (bind (copy_job W (int n1) our_total ''/source_desktop/'' (dest_dir s) (offset t)) (\<lambda>t'.
          block [
            queue_event ''percent'' (Ratio 1),
            queue_event ''progress-info''
              (Text (string_of_nat (n1 + n2) @ ''/'' @ string_of_nat (n1 + n2) @ '' ( 100.00 % )'')),
            for_each [] (\<lambda>directory. queue_event ''info''
              (Text (''Restoring meta-information on '' @ directory)))])))))
     | _ \<Rightarrow> raise ValueError)))))"

text \<open>\<^verbatim>\<open>install_system\<close>: every exception of the block is logged and turned into a fatal
  event.\<close>

definition install_system :: "world \<Rightarrow> unit prog" where
  "install_system W =
     try_except (install_system_body W)
       (\<lambda>err. Some (seq (logging ''error'' (Exc err)) (queue_fatal_event (Exc err))))"

text \<open>The values of the \<open>percent\<close> events of a list of events.\<close>

fun percent_values :: "event list \<Rightarrow> rat list" where
  "percent_values [] = []"
| "percent_values ((k, Ratio r) # es) =
     (if k = ''percent'' then r # percent_values es else percent_values es)"
| "percent_values (e # es) = percent_values es"

text \<open>The counts \<open>total - remaining\<close> of the lines that carry a pair, in order.\<close>

fun processed_counts :: "string list \<Rightarrow> int list" where
  "processed_counts [] = []"
| "processed_counts (line # lines) =
     (case findall_first line of
        None \<Rightarrow> processed_counts lines
      | Some (xfr, remaining, total_local) \<Rightarrow>
          (int_of_digits total_local - int_of_digits remaining) # processed_counts lines)"

subsection \<open>The pipeline (run_installation)\<close>

text \<open>\<^verbatim>\<open>configuration[section][key]\<close> of the module-level \<^verbatim>\<open>ConfigObj\<close>.\<close>

definition config_get :: "world \<Rightarrow> string \<Rightarrow> string \<Rightarrow> string prog" where
  "config_get W section key =
     (case configuration W section of
        None \<Rightarrow> raise (KeyError section)
      | Some sec \<Rightarrow> (case sec key of None \<Rightarrow> raise (KeyError key) | Some v \<Rightarrow> ret v))"

text \<open>Lines 302-314: the settings read from \<^verbatim>\<open>/etc/thus.conf\<close>.\<close>

definition read_configuration :: "world \<Rightarrow> unit prog" where
  "read_configuration W =
     bind (config_get W ''distribution'' ''DISTRIBUTION_NAME'') (\<lambda>distribution_name.
     bind (config_get W ''distribution'' ''DISTRIBUTION_VERSION'') (\<lambda>distribution_version.
     bind (config_get W ''install'' ''LIVE_USER_NAME'') (\<lambda>live_user.
     bind (config_get W ''install'' ''LIVE_MEDIA_SOURCE'') (\<lambda>v1.
     seq (modify (\<lambda>s. s\<lparr>media := v1\<rparr>))
    (bind (config_get W ''install'' ''LIVE_MEDIA_DESKTOP'') (\<lambda>v2.
     seq (modify (\<lambda>s. s\<lparr>media_desktop := v2\<rparr>))
    (bind (config_get W ''install'' ''LIVE_MEDIA_TYPE'') (\<lambda>v3.
     seq (modify (\<lambda>s. s\<lparr>media_type := v3\<rparr>))
    (bind (config_get W ''install'' ''KERNEL'') (\<lambda>v4.
     modify (\<lambda>s. s\<lparr>kernel := v4\<rparr>)))))))))))"

text \<open>Lines 318-339: automatic partitioning, by the \<^verbatim>\<open>auto_partition\<close> module.\<close>

definition automatic_partition :: "world \<Rightarrow> unit prog" where
  "automatic_partition W = with_state (\<lambda>s.
     seq (logging ''debug'' (Text (''Creating partitions and their filesystems in ''
            @ py_str (settings_get s ''auto_device''))))
       (case auto_partition W (trace s) of
          Inl e \<Rightarrow> seq (record_action AutoPartitionRun) (raise e)
        | Inr (md, fd) \<Rightarrow>
            seq (record_action AutoPartitionRun)
              (modify (\<lambda>s. s\<lparr>mount_devices := md, fs_devices := fd\<rparr>))))"

definition cmd_failed_warnings :: "string \<Rightarrow> string list \<Rightarrow> unit prog" where
  "cmd_failed_warnings msg cmd = block [
     logging ''warning'' (Text msg),
     logging ''warning'' (Text (''Command '' @ py_repr_list cmd @ '' has failed.'')),
     logging ''warning'' (Text ''Output : None'')]"

text \<open>Lines 382-409: the body of the loop over the mount points in advanced mode.\<close>

definition mount_other :: "world \<Rightarrow> string \<Rightarrow> string \<Rightarrow> string \<Rightarrow> string \<times> string \<Rightarrow> unit prog" where
  "mount_other W root_partition boot_partition swap_partition entry =
     (let path = fst entry; mount_part = snd entry; mount_dir = os_path_join DEST_DIR path in
      if path = [] then ret ()
      else if mount_part \<noteq> root_partition \<and> mount_part \<noteq> boot_partition
              \<and> mount_part \<noteq> swap_partition
      then try_except
             (block [
                makedirs_if_missing W mount_dir,
                logging ''debug'' (Text (''Mounting partition '' @ mount_part @ '' into ''
                   @ mount_dir @ '' directory'')),
                check_call W [''mount'', mount_part, mount_dir]])
             (\<lambda>err. case err of
                CalledProcessError c \<Rightarrow> Some (cmd_failed_warnings
                  (''Can'' @ [CHR 0x27] @ ''t mount '' @ mount_part @ '' in '' @ mount_dir) c)
              | _ \<Rightarrow> None)
      else if mount_part = swap_partition
      then try_except
             (block [
                logging ''debug'' (Text (''Activating swap in '' @ mount_part)),
                check_call W [''swapon'', swap_partition]])
             (\<lambda>err. case err of
                CalledProcessError c \<Rightarrow> Some (cmd_failed_warnings
                  (''Can'' @ [CHR 0x27] @ ''t activate swap in '' @ mount_part) c)
              | _ \<Rightarrow> None)
      else ret ())"

text \<open>Lines 345-409: mounting the target in the modes alongside and advanced.\<close>

definition mount_target :: "world \<Rightarrow> unit prog" where
  "mount_target W = with_state (\<lambda>s.
     case map_of (mount_devices s) ''/'' of
       None \<Rightarrow> raise (KeyError ''/'')
     | Some root_partition \<Rightarrow>
        (let boot_partition = (case map_of (mount_devices s) ''/boot'' of
                                 Some b \<Rightarrow> b | None \<Rightarrow> []);
             swap_partition = (case map_of (mount_devices s) ''swap'' of
                                 Some w \<Rightarrow> w | None \<Rightarrow> []);
             boot_path = os_path_join DEST_DIR ''boot''
         in block [
           logging ''debug'' (Text (''Mounting partition '' @ root_partition @ '' into ''
              @ DEST_DIR @ '' directory'')),
           check_call W [''mount'', root_partition, DEST_DIR],
           makedirs_if_missing W boot_path,
           when_do (map_of (mount_devices s) ''/boot'' \<noteq> None)
             (seq (logging ''debug'' (Text (''Mounting partition '' @ boot_partition @ '' into ''
                     @ boot_path @ ''/boot directory'')))
                  (check_call W [''mount'', boot_partition, boot_path])),
           when_do (install_method s = PStr ''advanced'')
             (for_each (mount_devices s)
                (mount_other W root_partition boot_partition swap_partition))]))"

text \<open>Lines 290-429: everything before the \<^verbatim>\<open>try\<close> block.\<close>

definition prepare_target :: "world \<Rightarrow> unit prog" where
  "prepare_target W = block [
     with_state (\<lambda>s.
       if \<not> path_exists W (trace s) DEST_DIR then os_call W (Makedirs DEST_DIR) DEST_DIR
       else os_call W (UnmountAll DEST_DIR) DEST_DIR),
     read_configuration W,
     with_state (\<lambda>s. when_do (install_method s = PStr ''automatic'') (automatic_partition W)),
     mkdir_if_missing W DEST_DIR,
     with_state (\<lambda>s. when_do (install_method s = PStr ''alongside''
                                \<or> install_method s = PStr ''advanced'') (mount_target W)),
     with_state (\<lambda>s.
       let db_lock = os_path_join DEST_DIR ''var/lib/pacman/db.lck'' in
       when_do (path_exists W (trace s) db_lock)
         (seq (os_call W (Remove db_lock) db_lock)
              (logging ''debug'' (Text (db_lock @ '' deleted''))))),
     for_each [os_path_join DEST_DIR ''var/lib/pacman'',
               os_path_join DEST_DIR ''etc/pacman.d/gnupg'',
               os_path_join DEST_DIR ''var/log'']
       (makedirs_if_missing W)]"

text \<open>The stages whose code is outside this model: the part of \<^verbatim>\<open>configure_system\<close>
  that follows the fstab (lines 1153-1440), and \<^verbatim>\<open>install_bootloader\<close>, which the
  file calls and does not define.\<close>

record stages =
  configure_rest :: "unit prog"
  install_bootloader :: "unit prog"

definition configure_system :: "world \<Rightarrow> stages \<Rightarrow> unit prog" where
  "configure_system W P = block [
     queue_event ''action'' (Text ''Configuring your new system''),
     auto_fstab W,
     queue_event ''debug'' (Text ''fstab file generated.''),
     configure_rest P]"

text \<open>Lines 434-448: the \<^verbatim>\<open>try\<close> block of \<^verbatim>\<open>run_installation\<close>.\<close>

definition install_stages :: "world \<Rightarrow> stages \<Rightarrow> unit prog" where
  "install_stages W P = block [
     queue_event ''debug'' (Text ''Install System ...''),
     install_system W,
     with_state (\<lambda>s. check_call W [''mkdir'', ''-p'', dest_dir s @ ''/var/log/'']),
     queue_event ''debug'' (Text ''System installed.''),
     queue_event ''debug'' (Text ''Configuring system ...''),
     configure_system W P,
     queue_event ''debug'' (Text ''System configured.''),
     with_state (\<lambda>s. when_do (truthy (settings_get s ''install_bootloader''))
       (seq (queue_event ''debug'' (Text ''Installing boot loader ...''))
            (install_bootloader P)))]"

text \<open>One unmount of the cleanup: plain, then lazy, then the event \<open>kind\<close> with the text
  "Can't unmount" and the path \<open>shown\<close>.\<close>

definition unmount_or_warn :: "world \<Rightarrow> string \<Rightarrow> string \<Rightarrow> string \<Rightarrow> unit prog" where
  "unmount_or_warn W p kind shown =
     seq (queue_event ''debug'' (Text (''Unmounting '' @ p)))
       (try_except (check_call W [''umount'', p])
          (\<lambda>err. case err of
             CalledProcessError c \<Rightarrow> Some (seq (logging ''error'' (Exc err))
               (try_except (check_call W [''umount'', ''-l'', p])
                  (\<lambda>err2. case err2 of
                     CalledProcessError c2 \<Rightarrow> Some (block [
                       queue_event kind (Text (''Can'' @ [CHR 0x27] @ ''t unmount '' @ shown)),
                       logging ''warning'' (Exc err2)])
                   | _ \<Rightarrow> None)))
           | _ \<Rightarrow> None))"

text \<open>\<^verbatim>\<open>repr\<close> of the dictionary of mount points.\<close>

fun py_repr_dict_items :: "(string \<times> string) list \<Rightarrow> string" where
  "py_repr_dict_items [] = []"
| "py_repr_dict_items [(k, v)] = [CHR 0x27] @ k @ [CHR 0x27] @ '': '' @ [CHR 0x27] @ v @ [CHR 0x27]"
| "py_repr_dict_items ((k, v) # e # es) =
     [CHR 0x27] @ k @ [CHR 0x27] @ '': '' @ [CHR 0x27] @ v @ [CHR 0x27] @ '', ''
     @ py_repr_dict_items (e # es)"

text \<open>Lines 486-538: the unmounts that follow the call of \<^verbatim>\<open>chroot_run_umount_special_dirs\<close>,
  and the end of the run. The set \<^verbatim>\<open>{"source", "source_desktop"}\<close> is taken in this order.\<close>

definition unmount_everything :: "world \<Rightarrow> bool prog" where
  "unmount_everything W = with_state (\<lambda>s.
     seq (block [
       for_each [''source'', ''source_desktop''] (\<lambda>p0.
         let p = os_path_join ''/'' p0 in
         with_state (\<lambda>s1. when_do (mount_info W (trace s1) p) (unmount_or_warn W p ''warning'' p))),
       queue_event ''debug'' (Text (''Mounted devices: {'' @ py_repr_dict_items (mount_devices s) @ ''}'')),
       for_each (mount_devices s) (\<lambda>entry.
         let path = fst entry; mount_dir = dest_dir s @ path in
         when_do (path \<noteq> ''/'' \<and> path \<noteq> ''swap'' \<and> path \<noteq> [])
           (unmount_or_warn W mount_dir ''debug'' mount_dir)),
       with_state (\<lambda>s1. when_do (mount_info W (trace s1) (dest_dir s))
         (unmount_or_warn W (dest_dir s) ''debug'' ''/source_desktop'')),
       queue_event ''finished'' (Text ''Installation finished successfully.''),
       modify (\<lambda>s. s\<lparr>running := False, error := False\<rparr>)])
     (ret True))"

text \<open>Lines 475-483: the copy of the log.\<close>

definition copy_log :: "world \<Rightarrow> unit prog" where
  "copy_log W = with_state (\<lambda>s.
     let dst = os_path_join (dest_dir s) (''var/log/thus-'' @ strftime W (trace s) @ ''.log'') in
     case copy_outcome W (trace s) of
       Copied \<Rightarrow> record_action (CopyFile ''/tmp/thus.log'' dst)
     | NotFound \<Rightarrow> logging ''warning''
         (Text (''Can'' @ [CHR 0x27] @ ''t copy Thus log to '' @ dst))
     | AlreadyExists \<Rightarrow> ret ()
     | CopyDenied \<Rightarrow> raise (OSError dst))"

text \<open>\<^verbatim>\<open>run_installation\<close>. The handlers of the \<^verbatim>\<open>try\<close> block give the value of
  \<^verbatim>\<open>all_ok\<close>. The name \<^verbatim>\<open>chroot_run_umount_special_dirs\<close> is bound nowhere in the module,
  so its call raises \<^verbatim>\<open>NameError\<close>.\<close>

definition run_installation :: "world \<Rightarrow> stages \<Rightarrow> bool prog" where
  "run_installation W P =
     seq (prepare_target W)
    (bind (try_except (seq (install_stages W P) (ret True))
             (\<lambda>err. case err of
                CalledProcessError c \<Rightarrow> Some (
                  seq (logging ''error'' (Exc err))
                 (seq (queue_fatal_event (Text ''CalledProcessError.output = None''))
                      (ret False)))
              | InstallError v \<Rightarrow> Some (
                  seq (logging ''error'' (Exc err))
                 (seq (queue_fatal_event (Text v))
                      (ret False)))
              | _ \<Rightarrow> Some (
                  seq (logging ''debug'' (Exc err))
                      (ret True))))
       (\<lambda>all_ok.
          if \<not> all_ok then seq (modify (\<lambda>s. s\<lparr>error := True\<rparr>)) (ret False)
          else seq (copy_log W)
              (seq (raise (NameError ''chroot_run_umount_special_dirs''))
                   (unmount_everything W))))"

text \<open>Reading a trace: the mounts of special directories
  (\<^verbatim>\<open>mount -t type source dir\<close> and \<^verbatim>\<open>mount -o bind source dir\<close>), and every
  \<^verbatim>\<open>umount\<close> command.\<close>

fun special_mounts :: "action list \<Rightarrow> action list" where
  "special_mounts [] = []"
| "special_mounts (CheckCall [c, opt, v, src, d] # as) =
     (if c = ''mount'' \<and> (opt = ''-t'' \<or> opt = ''-o'')
      then CheckCall [c, opt, v, src, d] # special_mounts as else special_mounts as)"
| "special_mounts (a # as) = special_mounts as"

fun umount_commands :: "action list \<Rightarrow> action list" where
  "umount_commands [] = []"
| "umount_commands (CheckCall (c # args) # as) =
     (if c = ''umount'' then CheckCall (c # args) # umount_commands as else umount_commands as)"
| "umount_commands (a # as) = umount_commands as"

text \<open>A world like a fresh live system: the two images and their mount points exist, a
  directory exists once it has been made, the empty path does not exist and cannot be
  made a directory; every command works.\<close>

definition live_world :: world where
  "live_world = calm_world\<lparr>
     path_exists := (\<lambda>h p. p \<in> set [''/bootmnt/root-image.sqfs'', ''/bootmnt/desktop-image.sqfs'',
                                       ''/source'', ''/source_desktop'']
                            \<or> Makedirs p \<in> set h \<or> Mkdir p \<in> set h),
     os_ok := (\<lambda>h a. a \<noteq> Mkdir [] \<and> a \<noteq> Makedirs []) \<rparr>"

text \<open>The stages outside the model, as the file has them: \<^verbatim>\<open>configure_system\<close> reaches the
  call of the unbound name \<^verbatim>\<open>chroot_run_mount_special_dirs\<close>; \<^verbatim>\<open>install_bootloader\<close> is not
  an attribute of the object.\<close>

definition source_stages :: stages where
  "source_stages = \<lparr> configure_rest = raise (NameError ''chroot_run_mount_special_dirs''),
                     install_bootloader = raise (AttributeError ''install_bootloader'') \<rparr>"

text \<open>\<open>outcome g X m\<close>: when \<open>m\<close> ends the process, \<open>X\<close> holds of the reading \<open>g\<close> of the
  state it started in and of the state it ends in; otherwise \<open>m\<close> leaves \<open>g\<close> alone.\<close>

definition outcome :: "(state \<Rightarrow> 'b) \<Rightarrow> ('b \<Rightarrow> state \<Rightarrow> bool) \<Rightarrow> 'a prog \<Rightarrow> bool" where
  "outcome g X m = (\<forall>s r s'. m s = (r, s') \<longrightarrow> (if r = Exit then X (g s) s' else g s' = g s))"

text \<open>What a fatal abort is judged on: the \<open>error\<close> events queued, the flag of the special
  directories and the special directories mounted so far.\<close>

definition abort_view :: "state \<Rightarrow> payload list \<times> bool \<times> action list" where
  "abort_view s = (events_of_kind ''error'' s, special_dirs_mounted s, special_mounts (trace s))"

definition aborted :: "payload list \<times> bool \<times> action list \<Rightarrow> state \<Rightarrow> bool" where
  "aborted v s' =
     ((\<exists>x. events_of_kind ''error'' s' = fst v @ [x])
      \<and> special_dirs_mounted s' = fst (snd v)
      \<and> special_mounts (trace s') = snd (snd v)
      \<and> \<not> running s' \<and> error s')"

section \<open>Properties\<close>

subsection \<open>The copy progress tracker\<close>

lemma run_line_events:
  assumes "total_files t \<noteq> 0" and "callback_queue s = Some q"
  shows "\<exists>n'. run_line t n line s =
           (Normal n', s\<lparr>callback_queue := Some (q @ spec_line_events t line)\<rparr>)"
  using assms
  by (auto simp: run_line_def spec_line_events_def update_progress_def queue_event_def
      seq_def bind_def ret_def Let_def mod_eq_0_iff_dvd split: option.splits prod.splits)

lemma run_lines_events:
  assumes "total_files t \<noteq> 0" and "callback_queue s = Some q"
  shows "\<exists>n'. run_lines t n lines s =
           (Normal n', s\<lparr>callback_queue := Some (q @ concat (map (spec_line_events t) lines))\<rparr>)"
  using assms
proof (induction lines arbitrary: n s q)
  case Nil
  then show ?case by (simp add: ret_def)
next
  case (Cons line lines)
  let ?s1 = "s\<lparr>callback_queue := Some (q @ spec_line_events t line)\<rparr>"
  from run_line_events[OF Cons.prems, of n line] obtain n1 where
    1: "run_line t n line s = (Normal n1, ?s1)"
    by blast
  have "callback_queue ?s1 = Some (q @ spec_line_events t line)" by simp
  from Cons.IH[OF Cons.prems(1) this, of n1] obtain n2 where
    2: "run_lines t n1 lines ?s1 =
          (Normal n2, ?s1\<lparr>callback_queue :=
             Some ((q @ spec_line_events t line) @ concat (map (spec_line_events t) lines))\<rparr>)"
    by blast
  show ?case using 1 2 by (simp add: bind_def)
qed

text \<open>
  C5 (as stated, refuted). A job with offset 0 and expected total 200 reads a line reporting
  40/100: \<open>copied = 60\<close> is not a multiple of 100, so no \<open>percent\<close> event is handed to the
  channel; in particular none with ratio 0.30.
\<close>

theorem copy_job_40_100_no_event:
  "events_of_kind ''percent''
     (snd (FileCopyThread_run \<lparr>our_current = 0, total_files = 200, offset = 0\<rparr>
            [''xfr#7, ir-chk=40/100''] (init Map.empty (Some []) [] Map.empty None))) = []"
  by (simp add: events_of_kind_def events_def FileCopyThread_run_def run_line_def bind_def
      ret_def match_here_def match_digits_def is_digit_def int_of_digits_def digit_val_def
      init_def queue_event_def)

text \<open>
  C5 (amended). A copy job with offset 0 and expected total 200 that reads one line
  reporting remaining/total counts of 40/100 computes \<open>copied = 60\<close>, emits no event and
  changes nothing of the installer; the job's offset becomes 60.
\<close>

theorem copy_job_40_100_silent:
  assumes "findall_first line = Some (x, r, tot)"
    and "int_of_digits r = 40" and "int_of_digits tot = 100"
  shows "FileCopyThread_run \<lparr>our_current = c, total_files = 200, offset = 0\<rparr> [line] s
         = (Normal \<lparr>our_current = c, total_files = 200, offset = 60\<rparr>, s)"
  using assms by (simp add: FileCopyThread_run_def run_line_def bind_def ret_def)

theorem copy_job_40_100_silent_witness:
  "FileCopyThread_run \<lparr>our_current = 0, total_files = 200, offset = 0\<rparr>
     [''     32,768 100%   31.25MB/s    0:00:00 (xfr#7, ir-chk=40/100)'']
     (init Map.empty (Some []) [] Map.empty None)
   = (Normal \<lparr>our_current = 0, total_files = 200, offset = 60\<rparr>,
      init Map.empty (Some []) [] Map.empty None)"
  using copy_job_40_100_silent [of
      "''     32,768 100%   31.25MB/s    0:00:00 (xfr#7, ir-chk=40/100)''"
      "''7''" "''40''" "''100''" 0 "init Map.empty (Some []) [] Map.empty None"]
  by (simp add: match_here_def match_digits_def is_digit_def int_of_digits_def digit_val_def)

text \<open>
  C6. With a non-zero expected total and a callback queue, a copy job hands to the channel,
  line by line and in order, exactly the events of \<open>spec_line_events\<close>: for a line carrying
  a (remaining, total) pair, one \<open>percent\<close> event of value
  \<open>(total - remaining + offset) / total_files\<close> if and only if that count is a multiple
  of 100, and nothing for a line without such a pair. The job ends normally and changes
  nothing else of the installer.
\<close>

theorem copy_job_emits_spec_events:
  assumes "total_files t \<noteq> 0" and "callback_queue s = Some q"
  shows "\<exists>n'. FileCopyThread_run t lines s =
           (Normal (t\<lparr>offset := n'\<rparr>),
            s\<lparr>callback_queue := Some (q @ concat (map (spec_line_events t) lines))\<rparr>)"
proof -
  from run_lines_events[OF assms, of 0 lines] obtain n' where
    "run_lines t 0 lines s =
       (Normal n', s\<lparr>callback_queue := Some (q @ concat (map (spec_line_events t) lines))\<rparr>)"
    by blast
  then show ?thesis by (auto simp: FileCopyThread_run_def bind_def ret_def)
qed

theorem copy_job_emits_spec_events_witness:
  "\<exists>n'. FileCopyThread_run \<lparr>our_current = 0, total_files = 200, offset = 0\<rparr>
          [''xfr#1, ir-chk=99/100'', ''usr/bin/ls'', ''xfr#2, ir-chk=0/100'']
          (init Map.empty (Some []) [] Map.empty None)
        = (Normal (\<lparr>our_current = 0, total_files = 200, offset = n'\<rparr>),
           (init Map.empty (Some []) [] Map.empty None)
             \<lparr>callback_queue := Some (the (callback_queue (init Map.empty (Some []) [] Map.empty None))
                @ [(''percent'', Ratio (1 / 2))])\<rparr>)"
  using copy_job_emits_spec_events [of "\<lparr>our_current = 0, total_files = 200, offset = 0\<rparr>"
      "init Map.empty (Some []) [] Map.empty None"
      "the (callback_queue (init Map.empty (Some []) [] Map.empty None))"
      "[''xfr#1, ir-chk=99/100'', ''usr/bin/ls'', ''xfr#2, ir-chk=0/100'']"]
  by (simp add: spec_line_events_def match_here_def match_digits_def is_digit_def
      int_of_digits_def digit_val_def init_def queue_event_def Let_def)

subsection \<open>The chroot lifecycle\<close>

lemma mounted_dirs_append: "mounted_dirs (xs @ ys) = mounted_dirs xs @ mounted_dirs ys"
  by (induction xs rule: mounted_dirs.induct) auto

lemma unmounted_dirs_append: "unmounted_dirs (xs @ ys) = unmounted_dirs xs @ unmounted_dirs ys"
  by (induction xs rule: unmounted_dirs.induct) auto

lemma makedirs_loop:
  "for_each ds (\<lambda>d. makedirs_if_missing W (f d)) s = (r, s') \<Longrightarrow>
     \<exists>ms. s' = s\<lparr>trace := trace s @ ms\<rparr> \<and> mounted_dirs ms = []"
proof (induction ds arbitrary: s)
  case Nil
  then show ?case by (auto simp: ret_def intro: exI[of _ "[]"])
next
  case (Cons d ds)
  show ?case
  proof (cases "makedirs_if_missing W (f d) s")
    case (Pair r1 s1)
    then have s1: "s1 = s \<or> s1 = s\<lparr>trace := trace s @ [Makedirs (f d)]\<rparr>"
      by (auto simp: makedirs_if_missing_def os_call_def split: if_splits)
    then obtain m1 where m1: "s1 = s\<lparr>trace := trace s @ m1\<rparr>" "mounted_dirs m1 = []"
    proof
      assume "s1 = s" then have "s1 = s\<lparr>trace := trace s @ []\<rparr>" by simp
      then show ?thesis using that[of "[]"] by simp
    next
      assume "s1 = s\<lparr>trace := trace s @ [Makedirs (f d)]\<rparr>"
      then show ?thesis using that[of "[Makedirs (f d)]"] by simp
    qed
    show ?thesis
    proof (cases r1)
      case (Normal u)
      with Pair Cons.prems have "for_each ds (\<lambda>d. makedirs_if_missing W (f d)) s1 = (r, s')"
        by (simp add: seq_def bind_def)
      from Cons.IH[OF this] obtain ms where "s' = s1\<lparr>trace := trace s1 @ ms\<rparr>" "mounted_dirs ms = []"
        by blast
      with m1 show ?thesis
        by (intro exI[of _ "m1 @ ms"]) (simp add: mounted_dirs_append)
    next
      case (Raise e)
      with Pair Cons.prems have "s' = s1" by (simp add: seq_def bind_def)
      with m1 show ?thesis by blast
    next
      case Exit
      with Pair Cons.prems have "s' = s1" by (simp add: seq_def bind_def)
      with m1 show ?thesis by blast
    qed
  qed
qed

lemma seq_Normal_iff:
  "(seq m n s = (Normal x, s')) = (\<exists>s1. m s = (Normal (), s1) \<and> n s1 = (Normal x, s'))"
  by (auto simp: seq_def bind_def split: prod.splits res.splits)

lemma check_call_Normal_iff:
  "(check_call W c s = (Normal x, s')) =
     (run_result W (trace s) c = Done \<and> s' = s\<lparr>trace := trace s @ [CheckCall c]\<rparr>)"
  by (auto simp: check_call_def Let_def split: cmd_result.splits)

lemma mount_sequence:
  assumes "\<not> special_dirs_mounted s" and "chroot_mount_special_dirs W s = (Normal (), s1)"
  shows "mounted_dirs (trace s1) = mounted_dirs (trace s) @ map (os_path_join (dest_dir s))
             (if truthy (settings_get s ''efi'')
              then [''sys'', ''proc'', ''dev'', ''dev/pts'', ''sys/firmware/efi'']
              else [''sys'', ''proc'', ''dev'', ''dev/pts''])
         \<and> special_dirs_mounted s1 \<and> dest_dir s1 = dest_dir s \<and> settings s1 = settings s
         \<and> callback_queue s1 = callback_queue s"
  using assms
  by (clarsimp simp: chroot_mount_special_dirs_def Let_def seq_Normal_iff check_call_Normal_iff
      when_do_def ret_def modify_def mounted_dirs_append settings_get_def
      simp del: for_each.simps dest!: makedirs_loop split: if_splits)

lemma umount_special_dir_spec:
  assumes "\<forall>h c. run_result W h c \<noteq> SpawnError" and "callback_queue s = Some q"
  shows "\<exists>s'. umount_special_dir W d s = (Normal (), s') \<and>
           trace s' = trace s @ fst (spec_unmount W (trace s) [d]) \<and>
           callback_queue s' = Some (q @ snd (spec_unmount W (trace s) [d])) \<and>
           special_dirs_mounted s' = special_dirs_mounted s"
proof (cases "run_result W (trace s) [''umount'', d]")
  case Done
  with assms(2) show ?thesis
    by (simp add: umount_special_dir_def try_except_def check_call_def Let_def)
next
  case NonZero
  show ?thesis
  proof (cases "run_result W (trace s @ [CheckCall [''umount'', d]]) [''umount'', ''-l'', d]")
    case Done
    with NonZero assms(2) show ?thesis
      by (simp add: umount_special_dir_def try_except_def check_call_def Let_def seq_def
           bind_def logging_def modify_def ret_def)
  next
    case NonZero2: NonZero
    with NonZero assms(2) show ?thesis
      by (simp add: umount_special_dir_def try_except_def check_call_def Let_def seq_def
           bind_def logging_def modify_def ret_def queue_event_def)
  next
    case SpawnError
    with assms(1) show ?thesis by simp
  qed
next
  case SpawnError
  with assms(1) show ?thesis by simp
qed

lemma umount_loop_spec:
  assumes "\<forall>h c. run_result W h c \<noteq> SpawnError" and "callback_queue s = Some q"
  shows "\<exists>s'. for_each ds (\<lambda>d. umount_special_dir W (f d)) s = (Normal (), s') \<and>
           trace s' = trace s @ fst (spec_unmount W (trace s) (map f ds)) \<and>
           callback_queue s' = Some (q @ snd (spec_unmount W (trace s) (map f ds))) \<and>
           special_dirs_mounted s' = special_dirs_mounted s"
  using assms(2)
proof (induction ds arbitrary: s q)
  case Nil
  then show ?case by (simp add: ret_def)
next
  case (Cons d ds)
  from umount_special_dir_spec[OF assms(1) Cons.prems, of "f d"] obtain s1 where
    1: "umount_special_dir W (f d) s = (Normal (), s1)"
       "trace s1 = trace s @ fst (spec_unmount W (trace s) [f d])"
       "callback_queue s1 = Some (q @ snd (spec_unmount W (trace s) [f d]))"
       "special_dirs_mounted s1 = special_dirs_mounted s"
    by blast
  from Cons.IH[OF 1(3)] obtain s' where
    2: "for_each ds (\<lambda>d. umount_special_dir W (f d)) s1 = (Normal (), s')"
       "trace s' = trace s1 @ fst (spec_unmount W (trace s1) (map f ds))"
       "callback_queue s' = Some ((q @ snd (spec_unmount W (trace s) [f d])) @
            snd (spec_unmount W (trace s1) (map f ds)))"
       "special_dirs_mounted s' = special_dirs_mounted s1"
    by blast
  show ?case using 1 2
    by (simp add: seq_def bind_def Let_def split: prod.splits if_splits)
qed

lemma spec_unmount_dirs: "unmounted_dirs (fst (spec_unmount W h ds)) = ds"
  by (induction ds arbitrary: h) (simp_all add: Let_def unmounted_dirs_append case_prod_beta)


lemma umount_spec:
  assumes "special_dirs_mounted s" and "callback_queue s = Some q"
    and "\<forall>h c. run_result W h c \<noteq> SpawnError"
  shows "\<exists>s'. chroot_umount_special_dirs W s = (Normal (), s') \<and>
           trace s' = trace s @ fst (spec_unmount W (trace s) (map (os_path_join (dest_dir s))
              (if truthy (settings_get s ''efi'')
               then [''dev/pts'', ''sys/firmware/efi'', ''sys'', ''proc'', ''dev'']
               else [''dev/pts'', ''sys'', ''proc'', ''dev'']))) \<and>
           callback_queue s' = Some (q @ snd (spec_unmount W (trace s) (map (os_path_join (dest_dir s))
              (if truthy (settings_get s ''efi'')
               then [''dev/pts'', ''sys/firmware/efi'', ''sys'', ''proc'', ''dev'']
               else [''dev/pts'', ''sys'', ''proc'', ''dev''])))) \<and>
           \<not> special_dirs_mounted s'"
proof -
  let ?ds = "if truthy (settings_get s ''efi'')
               then [''dev/pts'', ''sys/firmware/efi'', ''sys'', ''proc'', ''dev'']
               else [''dev/pts'', ''sys'', ''proc'', ''dev'']"
  from umount_loop_spec[OF assms(3) assms(2), of ?ds "os_path_join (dest_dir s)"]
  obtain s1 where
    1: "for_each ?ds (\<lambda>d. umount_special_dir W (os_path_join (dest_dir s) d)) s = (Normal (), s1)"
       "trace s1 = trace s @ fst (spec_unmount W (trace s) (map (os_path_join (dest_dir s)) ?ds))"
       "callback_queue s1 = Some (q @ snd (spec_unmount W (trace s) (map (os_path_join (dest_dir s)) ?ds)))"
    by blast
  have "chroot_umount_special_dirs W s = (Normal (), s1\<lparr>special_dirs_mounted := False\<rparr>)"
    using assms(1) 1(1)
    by (simp add: chroot_umount_special_dirs_def Let_def seq_def bind_def modify_def ret_def
        del: for_each.simps)
  then show ?thesis using 1(2,3) by simp
qed

text \<open>
  C3 (as stated, refuted). In a world where every command succeeds, mounting and then
  unmounting the special directories unmounts them in the order \<open>dev/pts, sys, proc, dev\<close>
  (with EFI: \<open>dev/pts, sys/firmware/efi, sys, proc, dev\<close>), which is not the reverse of
  the order \<open>sys, proc, dev, dev/pts\<close> (with EFI: \<open>..., sys/firmware/efi\<close>) they were
  mounted in.
\<close>

theorem special_dirs_unmount_not_reverse:
  "(let t = trace (snd (seq (chroot_mount_special_dirs calm_world)
                (chroot_umount_special_dirs calm_world)
                (init Map.empty (Some []) [] Map.empty None)))
    in mounted_dirs t = [''sys'', ''proc'', ''dev'', ''dev/pts'']
       \<and> unmounted_dirs t = [''dev/pts'', ''sys'', ''proc'', ''dev'']
       \<and> unmounted_dirs t \<noteq> rev (mounted_dirs t))
   \<and>
   (let t = trace (snd (seq (chroot_mount_special_dirs calm_world)
                (chroot_umount_special_dirs calm_world)
                (init [''efi'' \<mapsto> PBool True] (Some []) [] Map.empty None)))
    in mounted_dirs t = [''sys'', ''proc'', ''dev'', ''dev/pts'', ''sys/firmware/efi'']
       \<and> unmounted_dirs t = [''dev/pts'', ''sys/firmware/efi'', ''sys'', ''proc'', ''dev'']
       \<and> unmounted_dirs t \<noteq> rev (mounted_dirs t))"
  by (simp add: Let_def init_def queue_event_def chroot_mount_special_dirs_def
      chroot_umount_special_dirs_def umount_special_dir_def makedirs_if_missing_def
      calm_world_def seq_def bind_def ret_def modify_def when_do_def check_call_def
      try_except_def settings_get_def os_path_join_def)

text \<open>
  C3 (amended). After \<open>chroot_mount_special_dirs\<close> has mounted \<open>sys, proc, dev, dev/pts\<close>
  (and \<open>sys/firmware/efi\<close> last when EFI is active), \<open>chroot_umount_special_dirs\<close> tries
  the plain unmount on the same directories in the order \<open>dev/pts, [sys/firmware/efi,] sys,
  proc, dev\<close>, each nested mount point before its parent. When every command can be
  started, the commands run are exactly those of \<open>spec_unmount\<close>: a plain unmount that
  exits non-zero is retried with \<^verbatim>\<open>umount -l\<close>, and one that fails again becomes a
  \<open>warning\<close> event; the function returns normally and clears the flag.
\<close>

theorem special_dirs_unmount_order_and_retry:
  assumes "\<not> special_dirs_mounted s0"
    and "chroot_mount_special_dirs W s0 = (Normal (), s)"
    and "callback_queue s0 = Some q"
    and "\<forall>h c. run_result W h c \<noteq> SpawnError"
  shows "\<exists>s'. chroot_umount_special_dirs W s = (Normal (), s') \<and> \<not> special_dirs_mounted s' \<and>
     mounted_dirs (trace s) = mounted_dirs (trace s0) @ map (os_path_join (dest_dir s0))
        (if truthy (settings_get s0 ''efi'')
         then [''sys'', ''proc'', ''dev'', ''dev/pts'', ''sys/firmware/efi'']
         else [''sys'', ''proc'', ''dev'', ''dev/pts'']) \<and>
     unmounted_dirs (trace s') = unmounted_dirs (trace s) @ map (os_path_join (dest_dir s0))
        (if truthy (settings_get s0 ''efi'')
         then [''dev/pts'', ''sys/firmware/efi'', ''sys'', ''proc'', ''dev'']
         else [''dev/pts'', ''sys'', ''proc'', ''dev'']) \<and>
     trace s' = trace s @ fst (spec_unmount W (trace s) (map (os_path_join (dest_dir s0))
        (if truthy (settings_get s0 ''efi'')
         then [''dev/pts'', ''sys/firmware/efi'', ''sys'', ''proc'', ''dev'']
         else [''dev/pts'', ''sys'', ''proc'', ''dev'']))) \<and>
     callback_queue s' = Some (q @ snd (spec_unmount W (trace s) (map (os_path_join (dest_dir s0))
        (if truthy (settings_get s0 ''efi'')
         then [''dev/pts'', ''sys/firmware/efi'', ''sys'', ''proc'', ''dev'']
         else [''dev/pts'', ''sys'', ''proc'', ''dev'']))))"
proof -
  from mount_sequence[OF assms(1,2)] have
    m: "mounted_dirs (trace s) = mounted_dirs (trace s0) @ map (os_path_join (dest_dir s0))
        (if truthy (settings_get s0 ''efi'')
         then [''sys'', ''proc'', ''dev'', ''dev/pts'', ''sys/firmware/efi'']
         else [''sys'', ''proc'', ''dev'', ''dev/pts''])"
    and f: "special_dirs_mounted s" and d: "dest_dir s = dest_dir s0"
    and st: "settings s = settings s0" and cq: "callback_queue s = Some q"
    using assms(3) by simp_all
  have e: "settings_get s ''efi'' = settings_get s0 ''efi''"
    using st by (simp add: settings_get_def)
  from umount_spec[OF f cq assms(4)] obtain s' where
    u: "chroot_umount_special_dirs W s = (Normal (), s')"
       "trace s' = trace s @ fst (spec_unmount W (trace s) (map (os_path_join (dest_dir s))
              (if truthy (settings_get s ''efi'')
               then [''dev/pts'', ''sys/firmware/efi'', ''sys'', ''proc'', ''dev'']
               else [''dev/pts'', ''sys'', ''proc'', ''dev''])))"
       "callback_queue s' = Some (q @ snd (spec_unmount W (trace s) (map (os_path_join (dest_dir s))
              (if truthy (settings_get s ''efi'')
               then [''dev/pts'', ''sys/firmware/efi'', ''sys'', ''proc'', ''dev'']
               else [''dev/pts'', ''sys'', ''proc'', ''dev'']))))"
       "\<not> special_dirs_mounted s'"
    by blast
  have "unmounted_dirs (trace s') = unmounted_dirs (trace s) @ map (os_path_join (dest_dir s0))
        (if truthy (settings_get s0 ''efi'')
         then [''dev/pts'', ''sys/firmware/efi'', ''sys'', ''proc'', ''dev'']
         else [''dev/pts'', ''sys'', ''proc'', ''dev''])"
    unfolding u(2) unmounted_dirs_append spec_unmount_dirs d e ..
  with u m show ?thesis unfolding d e by blast
qed

theorem special_dirs_unmount_order_and_retry_witness:
  "\<exists>s'. chroot_umount_special_dirs sticky_world
          (snd (chroot_mount_special_dirs sticky_world
                 (init Map.empty (Some []) [] Map.empty None))) = (Normal (), s')
     \<and> \<not> special_dirs_mounted s'
     \<and> mounted_dirs (trace (snd (chroot_mount_special_dirs sticky_world
                 (init Map.empty (Some []) [] Map.empty None))))
         = [''sys'', ''proc'', ''dev'', ''dev/pts'']
     \<and> unmounted_dirs (trace s') = [''dev/pts'', ''sys'', ''proc'', ''dev'']
     \<and> drop 7 (trace s') =
          [CheckCall [''umount'', ''dev/pts''], CheckCall [''umount'', ''-l'', ''dev/pts''],
           CheckCall [''umount'', ''sys''], CheckCall [''umount'', ''-l'', ''sys''],
           CheckCall [''umount'', ''proc''], CheckCall [''umount'', ''dev'']]
     \<and> drop 1 (events s') = [(''warning'', Text ''Unable to umount dev/pts'')]"
proof -
  let ?a = "init Map.empty (Some []) [] Map.empty None"
  let ?b = "snd (chroot_mount_special_dirs sticky_world ?a)"
  have 1: "\<not> special_dirs_mounted ?a"
    by (simp add: init_def queue_event_def)
  have 2: "chroot_mount_special_dirs sticky_world ?a = (Normal (), ?b)"
    by (simp add: init_def queue_event_def chroot_mount_special_dirs_def
        makedirs_if_missing_def sticky_world_def calm_world_def seq_def bind_def ret_def
        modify_def when_do_def check_call_def settings_get_def os_path_join_def)
  have 3: "callback_queue ?a = Some (the (callback_queue ?a))"
    by (simp add: init_def queue_event_def)
  have 4: "\<forall>h c. run_result sticky_world h c \<noteq> SpawnError"
    by (simp add: sticky_world_def)
  have 5: "trace ?b = [CheckCall [''mount'', ''-t'', ''sysfs'', ''/sys'', ''sys''],
      CheckCall [''chmod'', ''555'', ''sys''],
      CheckCall [''mount'', ''-t'', ''proc'', ''/proc'', ''proc''],
      CheckCall [''chmod'', ''555'', ''proc''],
      CheckCall [''mount'', ''-o'', ''bind'', ''/dev'', ''dev''],
      CheckCall [''mount'', ''-t'', ''devpts'', ''/dev/pts'', ''dev/pts''],
      CheckCall [''chmod'', ''555'', ''dev/pts'']]"
    by (simp add: init_def queue_event_def chroot_mount_special_dirs_def
        makedirs_if_missing_def sticky_world_def calm_world_def seq_def bind_def ret_def
        modify_def when_do_def check_call_def settings_get_def os_path_join_def)
  have 6: "dest_dir ?a = []" "settings_get ?a ''efi'' = PNone" "trace ?a = []"
    "length (the (callback_queue ?a)) = 1"
    by (simp_all add: init_def queue_event_def settings_get_def)
  from special_dirs_unmount_order_and_retry [OF 1 2 3 4] obtain s' where
    r: "chroot_umount_special_dirs sticky_world ?b = (Normal (), s')"
       "\<not> special_dirs_mounted s'"
       "mounted_dirs (trace ?b) = mounted_dirs (trace ?a) @ map (os_path_join (dest_dir ?a))
          (if truthy (settings_get ?a ''efi'')
           then [''sys'', ''proc'', ''dev'', ''dev/pts'', ''sys/firmware/efi'']
           else [''sys'', ''proc'', ''dev'', ''dev/pts''])"
       "unmounted_dirs (trace s') = unmounted_dirs (trace ?b) @ map (os_path_join (dest_dir ?a))
          (if truthy (settings_get ?a ''efi'')
           then [''dev/pts'', ''sys/firmware/efi'', ''sys'', ''proc'', ''dev'']
           else [''dev/pts'', ''sys'', ''proc'', ''dev''])"
       "trace s' = trace ?b @ fst (spec_unmount sticky_world (trace ?b)
          (map (os_path_join (dest_dir ?a))
            (if truthy (settings_get ?a ''efi'')
             then [''dev/pts'', ''sys/firmware/efi'', ''sys'', ''proc'', ''dev'']
             else [''dev/pts'', ''sys'', ''proc'', ''dev''])))"
       "callback_queue s' = Some (the (callback_queue ?a) @
          snd (spec_unmount sticky_world (trace ?b)
          (map (os_path_join (dest_dir ?a))
            (if truthy (settings_get ?a ''efi'')
             then [''dev/pts'', ''sys/firmware/efi'', ''sys'', ''proc'', ''dev'']
             else [''dev/pts'', ''sys'', ''proc'', ''dev'']))))"
    by blast
  have a: "mounted_dirs (trace ?b) = [''sys'', ''proc'', ''dev'', ''dev/pts'']"
    unfolding r(3) 6 by (simp add: os_path_join_def)
  have b: "unmounted_dirs (trace s') = [''dev/pts'', ''sys'', ''proc'', ''dev'']"
    unfolding r(4) 6 5 by (simp add: os_path_join_def)
  have c: "drop 7 (trace s') =
          [CheckCall [''umount'', ''dev/pts''], CheckCall [''umount'', ''-l'', ''dev/pts''],
           CheckCall [''umount'', ''sys''], CheckCall [''umount'', ''-l'', ''sys''],
           CheckCall [''umount'', ''proc''], CheckCall [''umount'', ''dev'']]"
    unfolding r(5) 6 5 by (simp add: os_path_join_def sticky_world_def calm_world_def)
  have d: "drop 1 (events s') = [(''warning'', Text ''Unable to umount dev/pts'')]"
    unfolding events_def r(6) 6 5 using 6(4)
    by (simp add: os_path_join_def sticky_world_def calm_world_def)
  from r(1,2) a b c d show ?thesis by blast
qed

text \<open>
  C7. A call of \<open>chroot_mount_special_dirs\<close> that follows one that returned does nothing
  but queue the debug event "Special dirs already mounted.": it runs no command, so the
  mounts of the two calls together are those of the first (from an unmounted state:
  \<open>sys, proc, dev, dev/pts\<close> and, with EFI, \<open>sys/firmware/efi\<close>, once each). A call of
  \<open>chroot_umount_special_dirs\<close> while the flag is unset does nothing but queue the debug
  event "Special dirs are not mounted. Skipping.": no unmount is run and the flag stays
  unset.
\<close>

theorem special_dirs_idempotent:
  "(chroot_mount_special_dirs W s = (Normal (), s1) \<longrightarrow>
      chroot_mount_special_dirs W s1 =
        queue_event ''debug'' (Text ''Special dirs already mounted.'') s1
      \<and> trace (snd (chroot_mount_special_dirs W s1)) = trace s1
      \<and> special_dirs_mounted (snd (chroot_mount_special_dirs W s1))
      \<and> (\<not> special_dirs_mounted s \<longrightarrow>
           mounted_dirs (trace (snd (chroot_mount_special_dirs W s1))) =
             mounted_dirs (trace s) @ map (os_path_join (dest_dir s))
               (if truthy (settings_get s ''efi'')
                then [''sys'', ''proc'', ''dev'', ''dev/pts'', ''sys/firmware/efi'']
                else [''sys'', ''proc'', ''dev'', ''dev/pts''])))
   \<and> (\<not> special_dirs_mounted s \<longrightarrow>
      chroot_umount_special_dirs W s =
        queue_event ''debug'' (Text ''Special dirs are not mounted. Skipping.'') s
      \<and> trace (snd (chroot_umount_special_dirs W s)) = trace s
      \<and> \<not> special_dirs_mounted (snd (chroot_umount_special_dirs W s)))"
proof (intro conjI impI)
  assume a: "chroot_mount_special_dirs W s = (Normal (), s1)"
  have f: "special_dirs_mounted s1"
  proof (cases "special_dirs_mounted s")
    case True
    with a show ?thesis
      by (auto simp: chroot_mount_special_dirs_def queue_event_def split: option.splits)
  next
    case False
    from mount_sequence[OF False a] show ?thesis by simp
  qed
  then show 1: "chroot_mount_special_dirs W s1 =
        queue_event ''debug'' (Text ''Special dirs already mounted.'') s1"
    by (simp add: chroot_mount_special_dirs_def)
  show 2: "trace (snd (chroot_mount_special_dirs W s1)) = trace s1"
    unfolding 1 by (simp add: queue_event_def split: option.splits)
  show "special_dirs_mounted (snd (chroot_mount_special_dirs W s1))"
    unfolding 1 using f by (simp add: queue_event_def split: option.splits)
  assume "\<not> special_dirs_mounted s"
  from mount_sequence[OF this a] show "mounted_dirs (trace (snd (chroot_mount_special_dirs W s1))) =
             mounted_dirs (trace s) @ map (os_path_join (dest_dir s))
               (if truthy (settings_get s ''efi'')
                then [''sys'', ''proc'', ''dev'', ''dev/pts'', ''sys/firmware/efi'']
                else [''sys'', ''proc'', ''dev'', ''dev/pts''])"
    unfolding 2 by simp
next
  assume n: "\<not> special_dirs_mounted s"
  then show 3: "chroot_umount_special_dirs W s =
        queue_event ''debug'' (Text ''Special dirs are not mounted. Skipping.'') s"
    by (simp add: chroot_umount_special_dirs_def)
  show "trace (snd (chroot_umount_special_dirs W s)) = trace s"
    unfolding 3 by (simp add: queue_event_def split: option.splits)
  show "\<not> special_dirs_mounted (snd (chroot_umount_special_dirs W s))"
    unfolding 3 using n by (simp add: queue_event_def split: option.splits)
qed

theorem special_dirs_idempotent_witness:
  "chroot_mount_special_dirs calm_world
      (snd (chroot_mount_special_dirs calm_world (init Map.empty (Some []) [] Map.empty None)))
    = queue_event ''debug'' (Text ''Special dirs already mounted.'')
        (snd (chroot_mount_special_dirs calm_world (init Map.empty (Some []) [] Map.empty None)))
   \<and> mounted_dirs (trace (snd (chroot_mount_special_dirs calm_world
        (snd (chroot_mount_special_dirs calm_world (init Map.empty (Some []) [] Map.empty None))))))
      = [''sys'', ''proc'', ''dev'', ''dev/pts'']
   \<and> chroot_umount_special_dirs calm_world (init Map.empty (Some []) [] Map.empty None)
      = queue_event ''debug'' (Text ''Special dirs are not mounted. Skipping.'')
          (init Map.empty (Some []) [] Map.empty None)
   \<and> trace (snd (chroot_umount_special_dirs calm_world
        (init Map.empty (Some []) [] Map.empty None))) = []"
proof -
  let ?a = "init Map.empty (Some []) [] Map.empty None"
  let ?b = "snd (chroot_mount_special_dirs calm_world ?a)"
  have 1: "\<not> special_dirs_mounted ?a" "dest_dir ?a = []" "settings_get ?a ''efi'' = PNone"
    "trace ?a = []"
    by (simp_all add: init_def queue_event_def settings_get_def)
  have 2: "chroot_mount_special_dirs calm_world ?a = (Normal (), ?b)"
    by (simp add: init_def queue_event_def chroot_mount_special_dirs_def
        makedirs_if_missing_def calm_world_def seq_def bind_def ret_def
        modify_def when_do_def check_call_def settings_get_def os_path_join_def)
  note r = special_dirs_idempotent [of calm_world ?a ?b]
  from r 2 have m: "chroot_mount_special_dirs calm_world ?b =
      queue_event ''debug'' (Text ''Special dirs already mounted.'') ?b"
    by blast
  from r 1(1) 2 have "mounted_dirs (trace (snd (chroot_mount_special_dirs calm_world ?b))) =
      mounted_dirs (trace ?a) @ map (os_path_join (dest_dir ?a))
        (if truthy (settings_get ?a ''efi'')
         then [''sys'', ''proc'', ''dev'', ''dev/pts'', ''sys/firmware/efi'']
         else [''sys'', ''proc'', ''dev'', ''dev/pts''])"
    by blast
  then have d: "mounted_dirs (trace (snd (chroot_mount_special_dirs calm_world ?b))) =
      [''sys'', ''proc'', ''dev'', ''dev/pts'']"
    unfolding 1 by (simp add: os_path_join_def)
  from r 1(1) have u: "chroot_umount_special_dirs calm_world ?a =
      queue_event ''debug'' (Text ''Special dirs are not mounted. Skipping.'') ?a"
    and "trace (snd (chroot_umount_special_dirs calm_world ?a)) = trace ?a"
    by blast+
  then have e: "trace (snd (chroot_umount_special_dirs calm_world ?a)) = []"
    unfolding 1 by simp
  from m d u e show ?thesis by blast
qed

subsection \<open>Frame rules\<close>

lemma preservesD: "preserves f m \<Longrightarrow> m s = (r, s') \<Longrightarrow> f s' = f s"
  by (auto simp: preserves_def)

lemma preserves_ret [intro!]: "preserves f (ret x)"
  by (simp add: preserves_def ret_def)

lemma preserves_raise [intro!]: "preserves f (raise e)"
  by (simp add: preserves_def raise_def)

lemma preserves_bind [intro!]:
  assumes "preserves f m" and "\<And>x. preserves f (k x)"
  shows "preserves f (bind m k)"
  unfolding preserves_def
proof (intro allI impI)
  fix s r s' assume a: "bind m k s = (r, s')"
  obtain r1 s1 where m: "m s = (r1, s1)" by (cases "m s")
  with assms(1) have 1: "f s1 = f s" by (auto simp: preserves_def)
  show "f s' = f s"
  proof (cases r1)
    case (Normal x)
    with a m have "k x s1 = (r, s')" by (simp add: bind_def)
    with assms(2)[of x] have "f s' = f s1" by (auto simp: preserves_def)
    with 1 show ?thesis by simp
  next
    case (Raise e)
    with a m 1 show ?thesis by (simp add: bind_def)
  next
    case Exit
    with a m 1 show ?thesis by (simp add: bind_def)
  qed
qed

lemma preserves_seq [intro!]:
  "preserves f m \<Longrightarrow> preserves f n \<Longrightarrow> preserves f (seq m n)"
  unfolding seq_def by (rule preserves_bind)

lemma preserves_block [intro!]:
  "(\<And>m. m \<in> set ms \<Longrightarrow> preserves f m) \<Longrightarrow> preserves f (block ms)"
  by (induction ms) auto

lemma preserves_when_do [intro!]: "(b \<Longrightarrow> preserves f m) \<Longrightarrow> preserves f (when_do b m)"
  by (auto simp: when_do_def)

lemma preserves_for_each [intro!]:
  "(\<And>x. x \<in> set xs \<Longrightarrow> preserves f (body x)) \<Longrightarrow> preserves f (for_each xs body)"
  by (induction xs) auto

lemma preserves_try_except [intro!]:
  assumes "preserves f m" and "\<And>e k. h e = Some k \<Longrightarrow> preserves f k"
  shows "preserves f (try_except m h)"
  unfolding preserves_def
proof (intro allI impI)
  fix s r s' assume a: "try_except m h s = (r, s')"
  obtain r1 s1 where m: "m s = (r1, s1)" by (cases "m s")
  with assms(1) have 1: "f s1 = f s" by (auto simp: preserves_def)
  show "f s' = f s"
  proof (cases r1)
    case (Raise e)
    show ?thesis
    proof (cases "h e")
      case None
      with a m Raise 1 show ?thesis by (simp add: try_except_def)
    next
      case (Some k)
      with a m Raise have "k s1 = (r, s')" by (simp add: try_except_def)
      with assms(2)[OF Some] have "f s' = f s1" by (auto simp: preserves_def)
      with 1 show ?thesis by simp
    qed
  qed (use a m 1 in \<open>simp_all add: try_except_def\<close>)
qed

lemma preserves_with_state [intro!]:
  "(\<And>s. preserves f (g s)) \<Longrightarrow> preserves f (with_state g)"
  by (auto simp: preserves_def with_state_def)

lemma preserves_if:
  "(b \<Longrightarrow> preserves f m) \<Longrightarrow> (\<not> b \<Longrightarrow> preserves f n) \<Longrightarrow> preserves f (if b then m else n)"
  by simp

lemma preserves_logging:
  "(\<And>s v. f (s\<lparr>log := v\<rparr>) = f s) \<Longrightarrow> preserves f (logging l m)"
  by (simp add: preserves_def logging_def modify_def)

lemma preserves_trace_calls:
  assumes "\<And>s v. f (s\<lparr>trace := v\<rparr>) = f s"
  shows "preserves f (check_call W c)" "preserves f (os_call W a p)"
    "preserves f (makedirs_if_missing W p)"
  using assms
  by (auto simp: preserves_def check_call_def os_call_def makedirs_if_missing_def Let_def
      split: cmd_result.splits if_splits)

lemma preserves_settings_set:
  "(\<And>s v. f (s\<lparr>settings := v\<rparr>) = f s) \<Longrightarrow> preserves f (settings_set k x)"
  by (simp add: preserves_def settings_set_def modify_def)

lemma preserves_queue_event:
  "(\<And>s v. f (s\<lparr>callback_queue := v\<rparr>) = f s) \<Longrightarrow> (\<And>s v. f (s\<lparr>stdout := v\<rparr>) = f s)
   \<Longrightarrow> preserves f (queue_event k x)"
  by (simp add: preserves_def queue_event_def split: option.splits)

subsection \<open>The fstab builder\<close>

lemma fstab_swap_fs: "preserves fs_devices (fstab_swap u p ls)"
  unfolding fstab_swap_def Let_def
  by (intro preserves_with_state preserves_seq preserves_ret) (auto intro: preserves_logging)

lemma fstab_advanced_luks_fs: "preserves fs_devices (fstab_advanced_luks W u mp p fmt ls)"
  unfolding fstab_advanced_luks_def Let_def
  by (intro preserves_seq preserves_block preserves_ret)
     (auto intro: preserves_logging preserves_trace_calls)

lemma fstab_home_luks_fs: "preserves fs_devices (fstab_home_luks W u mp fmt ls)"
  unfolding fstab_home_luks_def Let_def
  apply (intro preserves_with_state preserves_bind preserves_seq preserves_block preserves_ret)
   apply (simp split: pyval.splits bool.splits add: preserves_ret preserves_raise)
  apply (auto intro: preserves_logging preserves_trace_calls)
  done

lemma fstab_plain_fs: "preserves fs_devices (fstab_plain W u mp p fmt ls)"
  unfolding fstab_plain_def Let_def
  apply (intro preserves_seq preserves_when_do preserves_if preserves_ret preserves_with_state
      preserves_block)
    apply (auto intro: preserves_logging preserves_settings_set preserves_trace_calls)
  done

lemma entry_preserves_fs_devices:
  "preserves fs_devices (auto_fstab_entry W ul ulv e ls)"
  unfolding auto_fstab_entry_def Let_def
  by (intro preserves_with_state)
     (auto split: option.splits
       intro: fstab_swap_fs fstab_home_luks_fs fstab_advanced_luks_fs fstab_plain_fs)


lemma entry_skip:
  assumes "fs_devices s dev = None" and "get_info W dev ''UUID'' = Some u"
  shows "auto_fstab_entry W ul ulv (mp, dev) ls s = (Normal ls, s)"
  using assms by (simp add: auto_fstab_entry_def with_state_def ret_def)

lemma loop_append:
  "fstab_loop W ul ulv (xs @ ys) ls =
     bind (fstab_loop W ul ulv xs ls) (\<lambda>ls'. fstab_loop W ul ulv ys ls')"
proof (induction xs arbitrary: ls)
  case Nil
  show ?case by (simp add: bind_def ret_def)
next
  case (Cons x xs)
  show ?case
    by (rule ext) (simp add: Cons bind_def split: prod.splits res.splits)
qed

lemma loop_preserves_fs_devices: "preserves fs_devices (fstab_loop W ul ulv xs ls)"
  by (induction xs arbitrary: ls) (auto intro: entry_preserves_fs_devices)

lemma bind_Normal_iff:
  "(bind m k s = (Normal y, s')) = (\<exists>x s1. m s = (Normal x, s1) \<and> k x s1 = (Normal y, s'))"
  by (auto simp: bind_def split: prod.splits res.splits)

lemma is_ssd_path_iff: "is_ssd_path ds p = (\<exists>d\<in>set ds. str_in d p)"
proof -
  have "foldl (\<lambda>b d. if str_in d p then True else b) a ds = (a \<or> (\<exists>d\<in>set ds. str_in d p))" for a
    by (induction ds arbitrary: a) auto
  then show ?thesis by (simp add: is_ssd_path_def)
qed

lemma os_call_Normal_iff:
  "(os_call W a p s = (Normal x, s')) = (os_ok W (trace s) a \<and> s' = s\<lparr>trace := trace s @ [a]\<rparr>)"
  by (auto simp: os_call_def)

lemma makedirs_Normal_iff:
  "(makedirs_if_missing W p s = (Normal x, s')) =
     (if path_exists W (trace s) p then s' = s
      else os_ok W (trace s) (Makedirs p) \<and> s' = s\<lparr>trace := trace s @ [Makedirs p]\<rparr>)"
  by (auto simp: makedirs_if_missing_def os_call_def)

lemma plain_entry_Normal:
  assumes "fstab_plain W u mp p fmt ls s = (Normal ls', s')" and "mp \<noteq> []"
  shows "ls' = ls @ [''UUID='' @ u @ '' '' @ mp @ '' '' @ (if str_in ''fat'' fmt then ''vfat'' else fmt)
            @ '' '' @ mount_opts (\<exists>d\<in>set (ssd s). str_in d p) (if str_in ''fat'' fmt then ''vfat'' else fmt)
            @ '' 0 '' @ (if mp = ''/'' \<and> (if str_in ''fat'' fmt then ''vfat'' else fmt) \<notin> {''btrfs'', ''f2fs''}
                         then ''1'' else ''0'')]
         \<and> ssd s' = ssd s \<and> fs_devices s' = fs_devices s"
  using assms
  by (auto simp: fstab_plain_def Let_def seq_Normal_iff bind_Normal_iff with_state_def
      when_do_def ret_def settings_set_def modify_def logging_def makedirs_Normal_iff
      is_ssd_path_iff split: if_splits)

lemma swap_entry:
  "fstab_swap u p ls s =
     (Normal (ls @ [''UUID='' @ u @ '' swap swap '' @
         (if p \<in> set (ssd s) then ''defaults,discard'' else ''defaults'') @ '' 0 0'']),
      s\<lparr>log := log s @ [(''debug'', Text (''Added to fstab : '' @ ''UUID='' @ u @ '' swap swap '' @
         (if p \<in> set (ssd s) then ''defaults,discard'' else ''defaults'') @ '' 0 0''))]\<rparr>)"
  by (simp add: fstab_swap_def with_state_def Let_def seq_def bind_def logging_def modify_def ret_def)

lemma fstab_missing_uuid_raises:
  "get_info W dev ''UUID'' = None \<Longrightarrow>
     auto_fstab_entry W ul ulv (mp, dev) ls s = (Raise (KeyError ''UUID''), s)"
  by (simp add: auto_fstab_entry_def with_state_def raise_def)

text \<open>
  C8. For the DeviceMap \<open>{"/": "/dev/sda2", "/boot": "/dev/sda1", "swap": "/dev/sda3"}\<close>,
  the FilesystemMap \<open>{"/dev/sda2": "ext4", "/dev/sda1": "ext4", "/dev/sda3": "swap"}\<close> and
  an empty SsdSet, whatever the settings and the world, a run of \<open>auto_fstab\<close> that returns
  has written, as its last action, the file \<^verbatim>\<open>/install/etc/fstab\<close> holding the header and
  then: the \<open>/\<close> line with options \<open>defaults,rw,relatime,data=ordered\<close> and check flag
  \<open>1\<close>, the \<open>/boot\<close> line, the swap line with options \<open>defaults\<close>, and last the fixed
  \<open>tmpfs /tmp\<close> line.
\<close>

theorem fstab_scenario:
  assumes "mount_devices s =
      [(''/'', ''/dev/sda2''), (''/boot'', ''/dev/sda1''), (''swap'', ''/dev/sda3'')]"
    and "fs_devices s =
      [''/dev/sda2'' \<mapsto> ''ext4'', ''/dev/sda1'' \<mapsto> ''ext4'', ''/dev/sda3'' \<mapsto> ''swap'']"
    and "ssd s = []"
    and "auto_fstab W s = (Normal (), s')"
  shows "\<exists>h. trace s' = h @ [WriteFile fstab_path (py_join [CHR 0x0A] (fstab_header @
      [''UUID='' @ the (get_info W ''/dev/sda2'' ''UUID'') @ '' / ext4 defaults,rw,relatime,data=ordered 0 1'',
       ''UUID='' @ the (get_info W ''/dev/sda1'' ''UUID'') @ '' /boot ext4 defaults,rw,relatime,data=ordered 0 0'',
       ''UUID='' @ the (get_info W ''/dev/sda3'' ''UUID'') @ '' swap swap defaults 0 0'',
       tmpfs_line]) @ [CHR 0x0A])]"
proof -
  from assms(4) obtain ls s1 where
    l: "auto_fstab_lines W s = (Normal ls, s1)" and
    w: "os_call W (WriteFile fstab_path (py_join [CHR 0x0A] ls @ [CHR 0x0A])) fstab_path s1 = (Normal (), s1\<lparr>trace := trace s1 @ [WriteFile fstab_path (py_join [CHR 0x0A] ls @ [CHR 0x0A])]\<rparr>)"
    and s': "trace s' = trace s1 @ [WriteFile fstab_path (py_join [CHR 0x0A] ls @ [CHR 0x0A])]"
    by (auto simp: auto_fstab_def bind_Normal_iff seq_Normal_iff Let_def os_call_Normal_iff
        logging_def modify_def ret_def)
  from l assms(1) obtain l1 s2 l2 s3 l3 s4 where
    e1: "auto_fstab_entry W (settings_get s ''use_luks'') (settings_get s ''use_lvm'') (''/'', ''/dev/sda2'') fstab_header s = (Normal l1, s2)"
    and e2: "auto_fstab_entry W (settings_get s ''use_luks'') (settings_get s ''use_lvm'') (''/boot'', ''/dev/sda1'') l1 s2 = (Normal l2, s3)"
    and e3: "auto_fstab_entry W (settings_get s ''use_luks'') (settings_get s ''use_lvm'') (''swap'', ''/dev/sda3'') l2 s3 = (Normal l3, s4)"
    and ls: "ls = l3 @ [tmpfs_line]"
    by (auto simp: auto_fstab_lines_def with_state_def Let_def bind_Normal_iff seq_Normal_iff
        ret_def)
  have f1: "l1 = fstab_header @ [''UUID='' @ the (get_info W ''/dev/sda2'' ''UUID'') @ '' / ext4 defaults,rw,relatime,data=ordered 0 1'']"
    and g1: "ssd s2 = []" "fs_devices s2 = fs_devices s"
    using e1 assms(2,3)
    by (auto simp: auto_fstab_entry_def with_state_def Let_def raise_def mount_opts_def
        split: option.splits dest!: plain_entry_Normal)
  have f2: "l2 = l1 @ [''UUID='' @ the (get_info W ''/dev/sda1'' ''UUID'') @ '' /boot ext4 defaults,rw,relatime,data=ordered 0 0'']"
    and g2: "ssd s3 = []" "fs_devices s3 = fs_devices s"
    using e2 assms(2) g1
    by (auto simp: auto_fstab_entry_def with_state_def Let_def raise_def mount_opts_def
        split: option.splits dest!: plain_entry_Normal)
  have f3: "l3 = l2 @ [''UUID='' @ the (get_info W ''/dev/sda3'' ''UUID'') @ '' swap swap defaults 0 0'']"
    using e3 assms(2) g2
    by (auto simp: auto_fstab_entry_def with_state_def Let_def raise_def swap_entry
        split: option.splits)
  show ?thesis unfolding s' ls f3 f2 f1 by simp
qed

theorem fstab_scenario_witness:
  "\<exists>h. trace (snd (auto_fstab calm_world scenario_state)) =
     h @ [WriteFile ''/install/etc/fstab'' (py_join [CHR 0x0A] (fstab_header @
      [''UUID=u/dev/sda2 / ext4 defaults,rw,relatime,data=ordered 0 1'',
       ''UUID=u/dev/sda1 /boot ext4 defaults,rw,relatime,data=ordered 0 0'',
       ''UUID=u/dev/sda3 swap swap defaults 0 0'',
       ''tmpfs /tmp tmpfs defaults,noatime,mode=1777 0 0'']) @ [CHR 0x0A])]"
proof -
  have 1: "mount_devices scenario_state =
      [(''/'', ''/dev/sda2''), (''/boot'', ''/dev/sda1''), (''swap'', ''/dev/sda3'')]"
    "fs_devices scenario_state =
      [''/dev/sda2'' \<mapsto> ''ext4'', ''/dev/sda1'' \<mapsto> ''ext4'', ''/dev/sda3'' \<mapsto> ''swap'']"
    "ssd scenario_state = []"
    by (simp_all add: scenario_state_def init_def queue_event_def)
  have "fst (auto_fstab calm_world scenario_state) = Normal ()"
    by (simp add: auto_fstab_def auto_fstab_lines_def auto_fstab_entry_def fstab_plain_def
        fstab_swap_def with_state_def scenario_state_def init_def
        queue_event_def calm_world_def bind_def seq_def ret_def logging_def modify_def
        os_call_def settings_get_def settings_set_def when_do_def makedirs_if_missing_def Let_def)
  then have 2: "auto_fstab calm_world scenario_state =
      (Normal (), snd (auto_fstab calm_world scenario_state))"
    by (metis prod.collapse)
  from fstab_scenario [OF 1 2] show ?thesis
    by (simp add: calm_world_def fstab_path_def os_path_join_def DEST_DIR_def tmpfs_line_def)
qed

text \<open>
  C9 (as stated, refuted). The mount point \<open>/data\<close> on \<open>/dev/sdb1\<close>, a device with no
  entry in the FilesystemMap, is skipped without a trace: \<open>auto_fstab\<close> returns, and
  neither a \<open>warning\<close> event nor a log entry of level \<open>warning\<close> exists afterwards.
\<close>

theorem fstab_skip_is_silent:
  "fst (auto_fstab calm_world
          (init Map.empty (Some []) [(''/data'', ''/dev/sdb1'')] Map.empty None)) = Normal ()
   \<and> events_of_kind ''warning'' (snd (auto_fstab calm_world
          (init Map.empty (Some []) [(''/data'', ''/dev/sdb1'')] Map.empty None))) = []
   \<and> filter (\<lambda>e. fst e = ''warning'') (log (snd (auto_fstab calm_world
          (init Map.empty (Some []) [(''/data'', ''/dev/sdb1'')] Map.empty None)))) = []"
  by (simp add: auto_fstab_def auto_fstab_lines_def auto_fstab_entry_def with_state_def
      init_def queue_event_def calm_world_def bind_def seq_def ret_def logging_def modify_def
      os_call_def settings_get_def events_of_kind_def events_def Let_def)

text \<open>
  C9 (amended). For every DeviceMap and FilesystemMap, a mount point whose device has no
  entry in the FilesystemMap, and whose partition information carries a UUID, is skipped
  silently: its turn of the loop changes neither the lines nor anything of the installer
  (no event, no log entry, no error), and the loop over a DeviceMap that contains it ends
  exactly as the loop over the DeviceMap without it.
\<close>

theorem fstab_skips_unformatted:
  assumes "fs_devices s dev = None" and "get_info W dev ''UUID'' = Some u"
  shows "auto_fstab_entry W ul ulv (mp, dev) ls s = (Normal ls, s)
     \<and> fstab_loop W ul ulv (xs @ (mp, dev) # ys) ls s = fstab_loop W ul ulv (xs @ ys) ls s"
proof
  show "auto_fstab_entry W ul ulv (mp, dev) ls s = (Normal ls, s)"
    by (rule entry_skip[OF assms])
  obtain r1 s1 where 1: "fstab_loop W ul ulv xs ls s = (r1, s1)"
    by (cases "fstab_loop W ul ulv xs ls s")
  from preservesD[OF loop_preserves_fs_devices 1] assms(1)
  have "fs_devices s1 dev = None" by simp
  from entry_skip[OF this assms(2)]
  have 2: "\<And>l. auto_fstab_entry W ul ulv (mp, dev) l s1 = (Normal l, s1)" .
  show "fstab_loop W ul ulv (xs @ (mp, dev) # ys) ls s = fstab_loop W ul ulv (xs @ ys) ls s"
    using 1 2 by (cases r1) (simp_all add: loop_append bind_def)
qed

theorem fstab_skips_unformatted_witness:
  "auto_fstab_entry calm_world PNone PNone (''/data'', ''/dev/sdb1'') fstab_header unformatted_state
     = (Normal fstab_header, unformatted_state)
   \<and> fstab_loop calm_world PNone PNone [(''/'', ''/dev/sda2''), (''/data'', ''/dev/sdb1'')]
        fstab_header unformatted_state
     = fstab_loop calm_world PNone PNone [(''/'', ''/dev/sda2'')] fstab_header unformatted_state"
proof -
  have 1: "fs_devices unformatted_state ''/dev/sdb1'' = None"
    by (simp add: unformatted_state_def init_def queue_event_def)
  have 2: "get_info calm_world ''/dev/sdb1'' ''UUID'' = Some ''u/dev/sdb1''"
    by (simp add: calm_world_def)
  from fstab_skips_unformatted [OF 1 2, where ul = PNone and ulv = PNone and mp = "''/data''"
      and ls = fstab_header and xs = "[(''/'', ''/dev/sda2'')]" and ys = "[]"]
  show ?thesis by simp
qed

lemma home_luks_Normal:
  assumes "fstab_home_luks W u mp fmt ls s = (Normal ls', s')"
  shows "ls' = ls @ [''/dev/mapper/cryptAntergosHome '' @ mp @ '' '' @ fmt @ '' defaults 0 0'']"
  using assms
  by (auto simp: fstab_home_luks_def with_state_def Let_def bind_Normal_iff seq_Normal_iff
      ret_def split: pyval.splits bool.splits)

lemma advanced_luks_Normal:
  assumes "fstab_advanced_luks W u mp p fmt ls s = (Normal ls', s')"
  shows "ls' = ls @ [p @ '' '' @ mp @ '' '' @ fmt @ '' defaults 0 0'']"
  using assms
  by (auto simp: fstab_advanced_luks_def Let_def bind_Normal_iff seq_Normal_iff ret_def)

lemma crypt_entry_Normal:
  assumes "get_info W dev ''UUID'' = Some u" and "fs_devices s dev = Some fmt"
    and "\<not> str_in ''swap'' fmt"
    and "(str_in ''/home'' mp \<and> install_method s = PStr ''automatic'' \<and> truthy ul \<and> \<not> truthy ulv)
       \<or> (install_method s = PStr ''advanced'' \<and> mp \<noteq> ''/'' \<and> truthy ul
           \<and> str_in ''/dev/mapper'' dev)"
    and "auto_fstab_entry W ul ulv (mp, dev) ls s = (Normal ls', s')"
  shows "\<exists>d. ls' = ls @ [d @ '' '' @ mp @ '' '' @ fmt @ '' defaults 0 0'']"
  using assms
  by (auto simp: auto_fstab_entry_def with_state_def split: if_splits
      dest!: home_luks_Normal advanced_luks_Normal)

text \<open>
  C10 (as stated, refuted). With SsdSet \<open>{"/dev/sda"}\<close>, automatic install and LUKS without
  LVM, the non-swap entry \<open>/home\<close> on \<open>/dev/sda4\<close> (ext4) gets the options \<open>defaults\<close>,
  not the SSD options of ext4, although an element of SsdSet is a substring of its device
  path.
\<close>

theorem fstab_crypt_entry_ignores_ssd:
  "fst (auto_fstab_lines calm_world luks_home_state) =
     Normal (fstab_header @ [''/dev/mapper/cryptAntergosHome /home ext4 defaults 0 0'', tmpfs_line])
   \<and> ''/dev/sda'' \<in> set (ssd luks_home_state)
   \<and> str_in ''/dev/sda'' ''/dev/sda4''
   \<and> mount_opts True ''ext4'' = ''defaults,rw,noatime,discard''"
  by (simp add: luks_home_state_def auto_fstab_lines_def auto_fstab_entry_def
      fstab_home_luks_def with_state_def init_def queue_event_def calm_world_def bind_def
      seq_def ret_def logging_def modify_def os_call_def settings_get_def Let_def
      mount_opts_def crypttab_path_def)

text \<open>
  C10 (amended). SSD classification is asymmetric. A swap entry gets
  \<open>defaults,discard\<close> if and only if its exact device path is a member of SsdSet. An entry
  that is neither swap nor a LUKS crypt mapping, with a non-empty mount point, gets the
  options of the SSD table if and only if some element of SsdSet is a substring of its
  device path (\<open>mount_opts\<close> is called with exactly that truth value); crypt-mapping
  entries get \<open>defaults\<close> whatever SsdSet holds.
\<close>

theorem fstab_ssd_asymmetry:
  assumes "get_info W dev ''UUID'' = Some u" and "fs_devices s dev = Some fmt"
  shows "(str_in ''swap'' fmt \<longrightarrow>
            fst (auto_fstab_entry W ul ulv (mp, dev) ls s) =
              Normal (ls @ [''UUID='' @ u @ '' swap swap '' @
                 (if dev \<in> set (ssd s) then ''defaults,discard'' else ''defaults'') @ '' 0 0'']))
       \<and> (\<not> str_in ''swap'' fmt
            \<and> \<not> (str_in ''/home'' mp \<and> install_method s = PStr ''automatic''
                   \<and> truthy ul \<and> \<not> truthy ulv)
            \<and> \<not> (install_method s = PStr ''advanced'' \<and> mp \<noteq> ''/''
                   \<and> truthy ul \<and> str_in ''/dev/mapper'' dev)
            \<and> mp \<noteq> []
            \<and> auto_fstab_entry W ul ulv (mp, dev) ls s = (Normal ls', s')
          \<longrightarrow> ls' = ls @ [''UUID='' @ u @ '' '' @ mp @ '' ''
                   @ (if str_in ''fat'' fmt then ''vfat'' else fmt) @ '' ''
                   @ mount_opts (\<exists>d\<in>set (ssd s). str_in d dev)
                       (if str_in ''fat'' fmt then ''vfat'' else fmt)
                   @ '' 0 ''
                   @ (if mp = ''/'' \<and> (if str_in ''fat'' fmt then ''vfat'' else fmt)
                           \<notin> {''btrfs'', ''f2fs''}
                      then ''1'' else ''0'')])
       \<and> (\<not> str_in ''swap'' fmt
            \<and> ((str_in ''/home'' mp \<and> install_method s = PStr ''automatic''
                   \<and> truthy ul \<and> \<not> truthy ulv)
                \<or> (install_method s = PStr ''advanced'' \<and> mp \<noteq> ''/''
                   \<and> truthy ul \<and> str_in ''/dev/mapper'' dev))
            \<and> auto_fstab_entry W ul ulv (mp, dev) ls s = (Normal ls', s')
          \<longrightarrow> (\<exists>d. ls' = ls @ [d @ '' '' @ mp @ '' '' @ fmt @ '' defaults 0 0'']))"
proof (intro conjI impI)
  assume "str_in ''swap'' fmt"
  with assms show "fst (auto_fstab_entry W ul ulv (mp, dev) ls s) =
              Normal (ls @ [''UUID='' @ u @ '' swap swap '' @
                 (if dev \<in> set (ssd s) then ''defaults,discard'' else ''defaults'') @ '' 0 0''])"
    by (simp add: auto_fstab_entry_def with_state_def swap_entry)
next
  assume a: "\<not> str_in ''swap'' fmt
            \<and> \<not> (str_in ''/home'' mp \<and> install_method s = PStr ''automatic''
                   \<and> truthy ul \<and> \<not> truthy ulv)
            \<and> \<not> (install_method s = PStr ''advanced'' \<and> mp \<noteq> ''/''
                   \<and> truthy ul \<and> str_in ''/dev/mapper'' dev)
            \<and> mp \<noteq> []
            \<and> auto_fstab_entry W ul ulv (mp, dev) ls s = (Normal ls', s')"
  with assms have "fstab_plain W u mp dev fmt ls s = (Normal ls', s')"
    by (auto simp: auto_fstab_entry_def with_state_def split: if_splits)
  from plain_entry_Normal[OF this] a
  show "ls' = ls @ [''UUID='' @ u @ '' '' @ mp @ '' ''
                   @ (if str_in ''fat'' fmt then ''vfat'' else fmt) @ '' ''
                   @ mount_opts (\<exists>d\<in>set (ssd s). str_in d dev)
                       (if str_in ''fat'' fmt then ''vfat'' else fmt)
                   @ '' 0 ''
                   @ (if mp = ''/'' \<and> (if str_in ''fat'' fmt then ''vfat'' else fmt)
                           \<notin> {''btrfs'', ''f2fs''}
                      then ''1'' else ''0'')]"
    by blast
next
  assume "\<not> str_in ''swap'' fmt
            \<and> ((str_in ''/home'' mp \<and> install_method s = PStr ''automatic''
                   \<and> truthy ul \<and> \<not> truthy ulv)
                \<or> (install_method s = PStr ''advanced'' \<and> mp \<noteq> ''/''
                   \<and> truthy ul \<and> str_in ''/dev/mapper'' dev))
            \<and> auto_fstab_entry W ul ulv (mp, dev) ls s = (Normal ls', s')"
  with crypt_entry_Normal[OF assms, of mp ul ulv ls ls' s']
  show "\<exists>d. ls' = ls @ [d @ '' '' @ mp @ '' '' @ fmt @ '' defaults 0 0'']"
    by blast
qed

theorem fstab_ssd_asymmetry_witness:
  "fst (auto_fstab_entry calm_world PNone PNone (''swap'', ''/dev/sda3'') [] ssd_state)
     = Normal [''UUID=u/dev/sda3 swap swap defaults 0 0'']
   \<and> fst (auto_fstab_entry calm_world PNone PNone (''/'', ''/dev/sda2'') [] ssd_state)
     = Normal [''UUID=u/dev/sda2 / ext4 defaults,rw,noatime,discard 0 1'']"
proof -
  have u: "get_info calm_world ''/dev/sda3'' ''UUID'' = Some ''u/dev/sda3''"
    "get_info calm_world ''/dev/sda2'' ''UUID'' = Some ''u/dev/sda2''"
    by (simp_all add: calm_world_def)
  have f: "fs_devices ssd_state ''/dev/sda3'' = Some ''swap''"
    "fs_devices ssd_state ''/dev/sda2'' = Some ''ext4''"
    "ssd ssd_state = [''/dev/sda'']" "install_method ssd_state = PNone"
    by (simp_all add: ssd_state_def init_def queue_event_def)
  obtain r s' where e: "auto_fstab_entry calm_world PNone PNone (''/'', ''/dev/sda2'') [] ssd_state = (r, s')"
    by (cases "auto_fstab_entry calm_world PNone PNone (''/'', ''/dev/sda2'') [] ssd_state")
  then have "\<exists>l. r = Normal l"
    by (auto simp: auto_fstab_entry_def fstab_plain_def with_state_def ssd_state_def init_def
        queue_event_def calm_world_def bind_def seq_def ret_def logging_def modify_def
        settings_get_def settings_set_def when_do_def makedirs_if_missing_def Let_def)
  then obtain l where r: "r = Normal l" by blast
  from fstab_ssd_asymmetry [OF u(1) f(1), where ul = PNone and ulv = PNone and mp = "''swap''"
      and ls = "[]"] f(3)
  have 1: "fst (auto_fstab_entry calm_world PNone PNone (''swap'', ''/dev/sda3'') [] ssd_state)
     = Normal [''UUID=u/dev/sda3 swap swap defaults 0 0'']"
    by simp
  from fstab_ssd_asymmetry [OF u(2) f(2), where ul = PNone and ulv = PNone and mp = "''/''"
      and ls = "[]" and ls' = l and s' = s'] e r f(3,4)
  have "l = [''UUID=u/dev/sda2 / ext4 defaults,rw,noatime,discard 0 1'']"
    by (simp add: mount_opts_def)
  with e r 1 show ?thesis by simp
qed

end
